theory Spec2Isabelle
  imports Main "HOL-Library.Char_ord" "HOL-Library.List_Lexorder"
begin

section \<open>Time, durations and errors\<close>

text \<open>
  A Go \<open>time.Time\<close> is modelled as the number of nanoseconds since the Unix epoch and
  a \<open>time.Duration\<close> as a number of nanoseconds (which is what Go's \<open>Duration\<close> is).
  Both are unbounded integers: the instants and lifetimes this library handles
  (the current time, minutes, hours, thirty days) are far from the limits of the 64-bit
  representation. Every call of \<open>time.Now()\<close> in the source is an explicit argument of
  the modelling function, named after the place where the source reads the clock.
\<close>

type_synonym time = int
type_synonym duration = int

definition Second :: duration where
  "Second = 1000000000"

definition Minute :: duration where
  "Minute = 60 * Second"

definition Hour :: duration where
  "Hour = 60 * Minute"

definition Add :: "time \<Rightarrow> duration \<Rightarrow> time" where
  "Add t d = t + d"

definition Unix :: "time \<Rightarrow> int" where
  "Unix t = t div Second"

definition After :: "time \<Rightarrow> time \<Rightarrow> bool" where
  "After t u = (u < t)"

definition Before :: "time \<Rightarrow> time \<Rightarrow> bool" where
  "Before t u = (t < u)"

text \<open>
  A Go \<open>error\<close> built with \<open>fmt.Errorf\<close> is its message. \<open>Errorf_w\<close> is
  \<open>fmt.Errorf("msg: %w", err)\<close>: the message of the wrapped error follows the prefix.
\<close>

datatype error = Error string

fun Errorf_w :: "string \<Rightarrow> error \<Rightarrow> error" where
  "Errorf_w msg (Error inner) = Error (msg @ '': '' @ inner)"

text \<open>\<open>strings.Join(elems, sep)\<close>.\<close>

fun Join :: "string list \<Rightarrow> string \<Rightarrow> string" where
  "Join [] sep = []"
| "Join [e] sep = e"
| "Join (e # es) sep = e @ sep @ Join es sep"

section \<open>Strings in JSON\<close>

text \<open>
  A Go string is a sequence of bytes. Go's JSON encoder writes a string as text: every
  byte that is not part of a valid UTF-8 encoding is written as U+FFFD (the bytes
  \<open>EF BF BD\<close>), one for each such byte, and the decoder does the same with the bytes
  of a string literal; valid UTF-8 is given back as it was. \<open>rune_size s\<close> is the length
  of the valid encoding at the head of \<open>s\<close>, or 0 when there is none: one byte below
  \<open>0x80\<close>, or a lead byte followed by as many continuation bytes as it asks for, the
  first of them in the range the lead byte allows (which rules out overlong forms,
  surrogates and code points beyond U+10FFFF).
\<close>

definition inside :: "nat \<Rightarrow> nat \<Rightarrow> char \<Rightarrow> bool" where
  "inside lo hi c = (lo \<le> of_char c \<and> (of_char c :: nat) \<le> hi)"

definition lead :: "char \<Rightarrow> (nat \<times> nat \<times> nat) option" where
  "lead c =
     (if inside 194 223 c then Some (2, 128, 191)
      else if inside 224 224 c then Some (3, 160, 191)
      else if inside 225 236 c then Some (3, 128, 191)
      else if inside 237 237 c then Some (3, 128, 159)
      else if inside 238 239 c then Some (3, 128, 191)
      else if inside 240 240 c then Some (4, 144, 191)
      else if inside 241 243 c then Some (4, 128, 191)
      else if inside 244 244 c then Some (4, 128, 143)
      else None)"

definition tail_ok :: "nat \<Rightarrow> nat \<Rightarrow> nat \<Rightarrow> string \<Rightarrow> bool" where
  "tail_ok n lo hi s =
     (let p = take (n - 1) s
      in length p = n - 1 \<and> inside lo hi (hd p) \<and> list_all (inside 128 191) (tl p))"

definition rune_size :: "string \<Rightarrow> nat" where
  "rune_size s =
     (case s of
        [] \<Rightarrow> 0
      | c # r \<Rightarrow>
          if inside 0 127 c then 1
          else (case lead c of
                  None \<Rightarrow> 0
                | Some (n, lo, hi) \<Rightarrow> if tail_ok n lo hi r then n else 0))"

definition replacement :: string where
  "replacement = [CHR 0xEF, CHR 0xBF, CHR 0xBD]"

text \<open>The string that the JSON encoder writes for a Go string, and the decoder reads.\<close>

fun coerceUTF8 :: "string \<Rightarrow> string" where
  "coerceUTF8 [] = []"
| "coerceUTF8 (c # r) =
     (if rune_size (c # r) = 0 then replacement @ coerceUTF8 r
      else c # take (rune_size (c # r) - 1) r @ coerceUTF8 (drop (rune_size (c # r) - 1) r))"

text \<open>\<open>utf8.ValidString\<close>.\<close>

fun ValidString :: "string \<Rightarrow> bool" where
  "ValidString [] = True"
| "ValidString (c # r) =
     (rune_size (c # r) \<noteq> 0 \<and> ValidString (drop (rune_size (c # r) - 1) r))"

section \<open>Data model\<close>

text \<open>
  Several structs share field names; a shared name is written with its record
  (\<open>User.Email\<close>, \<open>SessionData.ExpiresAt\<close>). A struct is a value: where the source
  passes a pointer to a \<open>User\<close>, the model passes the user.
\<close>

record User =
  ID :: string
  Email :: string
  Name :: string
  AvatarURL :: string
  Provider :: string
  CreatedAt :: time
  UpdatedAt :: time

record SignUpRequest =
  Email :: string
  Password :: string
  Name :: string

record SignInRequest =
  Email :: string
  Password :: string

type_synonym OAuthProvider = string

definition ProviderGoogle :: OAuthProvider where
  "ProviderGoogle = ''google''"

definition ProviderGitHub :: OAuthProvider where
  "ProviderGitHub = ''github''"

definition ProviderLocal :: OAuthProvider where
  "ProviderLocal = ''local''"

record OAuthUserInfo =
  ID :: string
  Email :: string
  Name :: string
  AvatarURL :: string
  Provider :: string

record TokenClaims =
  UserID :: string
  Email :: string
  Name :: string
  Provider :: string

record SessionData =
  UserID :: string
  Email :: string
  CreatedAt :: time
  ExpiresAt :: time

record OAuthState =
  State :: string
  RedirectURI :: string
  ExpiresAt :: time

section \<open>The token engine\<close>

subsection \<open>The JWT library, as far as the token engine uses it\<close>

text \<open>
  \<open>jwt.MapClaims\<close> maps claim names to JSON values; the token engine stores strings
  and Unix timestamps in it. It is modelled by the list of its entries; \<open>index m k\<close> is
  \<open>m[k]\<close>, and in a payload that repeats a name the last entry counts, as for Go's JSON
  decoder. A serialized token is modelled by its three segments (the \<open>alg\<close> of the
  header, the JSON object of the payload, the signature) rather than by their base64
  text. The payload holds the strings as the JSON text has them: the encoder writes
  \<open>coerceUTF8 s\<close> for a string \<open>s\<close>, and the decoder reads a string of the payload
  the same way. (The names looked up are ASCII, and a name with other bytes equals none
  of them before or after decoding, so names are left as they are.) \<open>Malformed d\<close>
  stands for every string that does not split into three decodable segments, \<open>d\<close>
  being the library's description of what is wrong with it. The HMAC of the signing
  input under a key is the symbolic term \<open>HMAC alg key payload\<close>: two signatures
  agree exactly when algorithm, key and signed payload agree. The numbers of a payload
  are whole seconds of instants in the range that Go's 64-bit seconds and JSON's
  numbers hold exactly.
\<close>

datatype claim_value = String string | Number int

type_synonym MapClaims = "(string \<times> claim_value) list"

definition index :: "MapClaims \<Rightarrow> string \<Rightarrow> claim_value option" where
  "index m k = map_of (rev m) k"

datatype signature = HMAC string string MapClaims

datatype tokenString = Compact string MapClaims signature | Malformed string

record Token =
  Method :: string
  Claims :: MapClaims
  Valid :: bool

definition hmac_methods :: "string list" where
  "hmac_methods = [''HS256'', ''HS384'', ''HS512'']"

definition signing_methods :: "string list" where
  "signing_methods = hmac_methods @
     [''RS256'', ''RS384'', ''RS512'', ''ES256'', ''ES384'', ''ES512'',
      ''PS256'', ''PS384'', ''PS512'', ''EdDSA'', ''none'']"

text \<open>A claim value as the JSON encoder writes it, and as the decoder reads it.\<close>

fun json_value :: "claim_value \<Rightarrow> claim_value" where
  "json_value (String s) = String (coerceUTF8 s)"
| "json_value (Number n) = Number n"

definition json_claims :: "MapClaims \<Rightarrow> MapClaims" where
  "json_claims m = map (\<lambda>entry. (fst entry, json_value (snd entry))) m"

text \<open>
  \<open>token.SignedString(key)\<close> for a token made by \<open>jwt.NewWithClaims\<close> with an HMAC
  method: the claims are marshalled as JSON, and the payload is signed.
\<close>

definition SignedString :: "string \<Rightarrow> MapClaims \<Rightarrow> string \<Rightarrow> error + tokenString" where
  "SignedString alg claims key =
     (let payload = json_claims claims
      in Inr (Compact alg payload (HMAC alg key payload)))"

text \<open>
  A registered date claim (\<open>exp\<close>, \<open>nbf\<close>) read from the claims: absent, a number of
  seconds, or a value of the wrong type. The library reads the number 0 as an absent
  date.
\<close>

datatype numeric_date = NoDate | Date int | BadDate

definition parseNumericDate :: "MapClaims \<Rightarrow> string \<Rightarrow> numeric_date" where
  "parseNumericDate m k =
     (case index m k of
        None \<Rightarrow> NoDate
      | Some (Number n) \<Rightarrow> if n = 0 then NoDate else Date n
      | Some (String s) \<Rightarrow> BadDate)"

definition verifyExpiresAt :: "MapClaims \<Rightarrow> time \<Rightarrow> string list" where
  "verifyExpiresAt m now =
     (case parseNumericDate m ''exp'' of
        BadDate \<Rightarrow> [''invalid type for claim: exp is invalid'']
      | NoDate \<Rightarrow> []
      | Date e \<Rightarrow> if Before now (e * Second) then [] else [''token is expired''])"

definition verifyNotBefore :: "MapClaims \<Rightarrow> time \<Rightarrow> string list" where
  "verifyNotBefore m now =
     (case parseNumericDate m ''nbf'' of
        BadDate \<Rightarrow> [''invalid type for claim: nbf is invalid'']
      | NoDate \<Rightarrow> []
      | Date n \<Rightarrow> if \<not> Before now (n * Second) then [] else [''token is not valid yet''])"

text \<open>
  The default validator of the library: \<open>exp\<close> and \<open>nbf\<close> are checked when present,
  against the clock read at validation; issued-at, audience, issuer and subject are not
  checked unless asked for, and the token engine does not ask.
\<close>

definition Validate :: "MapClaims \<Rightarrow> time \<Rightarrow> error option" where
  "Validate m now =
     (let errs = verifyExpiresAt m now @ verifyNotBefore m now
      in if errs = [] then None
         else Some (Error (''token has invalid claims: '' @ Join errs '', '')))"

text \<open>
  \<open>jwt.Parse(tokenString, keyFunc)\<close>: split and decode, look the method up, ask the key
  function for the key, verify the signature over the payload as it stands in the token,
  validate the decoded claims.
\<close>

fun Parse :: "tokenString \<Rightarrow> (string \<Rightarrow> error + string) \<Rightarrow> time \<Rightarrow> error + Token" where
  "Parse (Malformed d) keyFunc now = Inl (Error (''token is malformed: '' @ d))"
| "Parse (Compact alg payload sig) keyFunc now =
     (if alg \<notin> set signing_methods
      then Inl (Error ''token is unverifiable: signing method (alg) is unavailable'')
      else case keyFunc alg of
        Inl e \<Rightarrow> Inl (Errorf_w ''token is unverifiable: error while executing keyfunc'' e)
      | Inr key \<Rightarrow>
          (if sig \<noteq> HMAC alg key payload
           then Inl (Error ''token signature is invalid: signature is invalid'')
           else (case Validate (json_claims payload) now of
                   Some e \<Rightarrow> Inl e
                 | None \<Rightarrow>
                     Inr \<lparr>Method = alg, Claims = json_claims payload, Valid = True\<rparr>)))"

subsection \<open>JWTManager\<close>

record JWTManager =
  secret :: string
  issuer :: string
  expiresIn :: duration

definition NewJWTManager :: "string \<Rightarrow> string \<Rightarrow> duration \<Rightarrow> JWTManager" where
  "NewJWTManager secret' issuer' expiresIn' =
     \<lparr>secret = secret', issuer = issuer', expiresIn = expiresIn'\<rparr>"

definition GenerateToken :: "JWTManager \<Rightarrow> TokenClaims \<Rightarrow> time \<Rightarrow> error + tokenString" where
  "GenerateToken j claims now =
     (let jwtClaims =
        [(''user_id'', String (TokenClaims.UserID claims)),
         (''email'', String (TokenClaims.Email claims)),
         (''name'', String (TokenClaims.Name claims)),
         (''provider'', String (TokenClaims.Provider claims)),
         (''iss'', String (issuer j)),
         (''sub'', String (TokenClaims.UserID claims)),
         (''iat'', Number (Unix now)),
         (''exp'', Number (Unix (Add now (expiresIn j)))),
         (''nbf'', Number (Unix now))]
      in SignedString ''HS256'' jwtClaims (secret j))"

text \<open>
  The key function both validators pass to \<open>jwt.Parse\<close>: the secret for a method of the
  HMAC family, an error for every other method.
\<close>

definition keyFunc :: "JWTManager \<Rightarrow> string \<Rightarrow> error + string" where
  "keyFunc j alg =
     (if alg \<notin> set hmac_methods
      then Inl (Error (''unexpected signing method: '' @ alg))
      else Inr (secret j))"

text \<open>\<open>s, _ := claims[k].(string)\<close>: the empty string when the claim is absent or no string.\<close>

definition claim_string :: "MapClaims \<Rightarrow> string \<Rightarrow> string" where
  "claim_string m k = (case index m k of Some (String s) \<Rightarrow> s | _ \<Rightarrow> [])"

definition ValidateToken :: "JWTManager \<Rightarrow> tokenString \<Rightarrow> time \<Rightarrow> error + TokenClaims" where
  "ValidateToken j tokenString now =
     (case Parse tokenString (keyFunc j) now of
        Inl err \<Rightarrow> Inl (Errorf_w ''failed to parse token'' err)
      | Inr token \<Rightarrow>
          if \<not> Valid token then Inl (Error ''invalid token'')
          else
            let claims = Claims token;
                userID = claim_string claims ''user_id'';
                email = claim_string claims ''email'';
                name = claim_string claims ''name'';
                provider = claim_string claims ''provider''
            in if userID = [] then Inl (Error ''user_id not found in token'')
               else Inr \<lparr>TokenClaims.UserID = userID, TokenClaims.Email = email,
                        TokenClaims.Name = name, TokenClaims.Provider = provider\<rparr>)"

definition GenerateRefreshToken :: "JWTManager \<Rightarrow> string \<Rightarrow> time \<Rightarrow> error + tokenString" where
  "GenerateRefreshToken j userID now =
     (let claims =
        [(''user_id'', String userID),
         (''type'', String ''refresh''),
         (''iss'', String (issuer j)),
         (''sub'', String userID),
         (''iat'', Number (Unix now)),
         (''exp'', Number (Unix (Add now (30 * 24 * Hour))))]
      in SignedString ''HS256'' claims (secret j))"

definition ValidateRefreshToken :: "JWTManager \<Rightarrow> tokenString \<Rightarrow> time \<Rightarrow> error + string" where
  "ValidateRefreshToken j tokenString now =
     (case Parse tokenString (keyFunc j) now of
        Inl err \<Rightarrow> Inl (Errorf_w ''failed to parse refresh token'' err)
      | Inr token \<Rightarrow>
          if \<not> Valid token then Inl (Error ''invalid refresh token'')
          else
            let claims = Claims token;
                tokenType = claim_string claims ''type''
            in if tokenType \<noteq> ''refresh'' then Inl (Error ''not a refresh token'')
               else
                 let userID = claim_string claims ''user_id''
                 in if userID = [] then Inl (Error ''user_id not found in refresh token'')
                    else Inr userID)"

section \<open>Configuration (config.go)\<close>

record Config =
  JWTSecret :: string
  JWTExpiration :: duration
  JWTIssuer :: string
  GoogleClientID :: string
  GoogleClientSecret :: string
  GoogleRedirectURI :: string
  GoogleScopes :: "string list"
  GitHubClientID :: string
  GitHubClientSecret :: string
  GitHubRedirectURI :: string
  GitHubScopes :: "string list"
  OAuthStateExpiration :: duration
  FrontendSuccessURL :: string
  FrontendErrorURL :: string
  RedisURL :: string
  EnableRedisCache :: bool
  BCryptCost :: int
  AllowSignup :: bool
  RequireEmailVerification :: bool

section \<open>The expiring key-value store (session.go)\<close>

text \<open>
  A value handed to \<open>Set\<close> is stored as its JSON text. The texts are: the object that
  \<open>json.Marshal\<close> writes for an \<open>OAuthState\<close> or for a \<open>SessionData\<close>, given by its
  strings as the text has them and its instant; \<open>JSON_null\<close>, which stands for
  \<open>null\<close> and for every object with none of the field names of the two structs;
  and \<open>JSON_other\<close>, which stands for every other text that is no object (a
  number, a string, a boolean, an array, or no JSON at all). As the argument of \<open>Set\<close>
  the same constructors name the Go value that is handed over. \<open>json.Marshal\<close> writes
  the strings of a struct through \<open>coerceUTF8\<close> and keeps its instants to the
  nanosecond; it fails on neither struct for instants with a four-digit year, which
  are the instants considered here. \<open>json.Unmarshal\<close> into a struct fills the fields
  whose JSON names occur in the text, reading strings through \<open>coerceUTF8\<close>, and
  leaves the others at their zero values: the two structs share the name
  \<open>expires_at\<close> only.
\<close>

datatype json =
  JSON_OAuthState OAuthState
| JSON_SessionData SessionData
| JSON_null
| JSON_other string

fun Marshal :: "json \<Rightarrow> error + json" where
  "Marshal (JSON_OAuthState st) =
     Inr (JSON_OAuthState
            \<lparr>State = coerceUTF8 (State st), RedirectURI = coerceUTF8 (RedirectURI st),
             OAuthState.ExpiresAt = OAuthState.ExpiresAt st\<rparr>)"
| "Marshal (JSON_SessionData d) =
     Inr (JSON_SessionData
            \<lparr>SessionData.UserID = coerceUTF8 (SessionData.UserID d),
             SessionData.Email = coerceUTF8 (SessionData.Email d),
             SessionData.CreatedAt = SessionData.CreatedAt d,
             SessionData.ExpiresAt = SessionData.ExpiresAt d\<rparr>)"
| "Marshal JSON_null = Inr JSON_null"
| "Marshal (JSON_other txt) = Inr (JSON_other txt)"

definition zeroTime :: time where
  "zeroTime = - 62135596800 * Second"

fun Unmarshal_OAuthState :: "json \<Rightarrow> error + OAuthState" where
  "Unmarshal_OAuthState (JSON_OAuthState st) =
     Inr \<lparr>State = coerceUTF8 (State st), RedirectURI = coerceUTF8 (RedirectURI st),
          OAuthState.ExpiresAt = OAuthState.ExpiresAt st\<rparr>"
| "Unmarshal_OAuthState (JSON_SessionData d) =
     Inr \<lparr>State = [], RedirectURI = [], OAuthState.ExpiresAt = SessionData.ExpiresAt d\<rparr>"
| "Unmarshal_OAuthState JSON_null =
     Inr \<lparr>State = [], RedirectURI = [], OAuthState.ExpiresAt = zeroTime\<rparr>"
| "Unmarshal_OAuthState (JSON_other txt) =
     Inl (Error ''json: cannot unmarshal into Go value of type gotrust.OAuthState'')"

fun Unmarshal_SessionData :: "json \<Rightarrow> error + SessionData" where
  "Unmarshal_SessionData (JSON_SessionData d) =
     Inr \<lparr>SessionData.UserID = coerceUTF8 (SessionData.UserID d),
          SessionData.Email = coerceUTF8 (SessionData.Email d),
          SessionData.CreatedAt = SessionData.CreatedAt d,
          SessionData.ExpiresAt = SessionData.ExpiresAt d\<rparr>"
| "Unmarshal_SessionData (JSON_OAuthState st) =
     Inr \<lparr>SessionData.UserID = [], SessionData.Email = [], SessionData.CreatedAt = zeroTime,
          SessionData.ExpiresAt = OAuthState.ExpiresAt st\<rparr>"
| "Unmarshal_SessionData JSON_null =
     Inr \<lparr>SessionData.UserID = [], SessionData.Email = [], SessionData.CreatedAt = zeroTime,
          SessionData.ExpiresAt = zeroTime\<rparr>"
| "Unmarshal_SessionData (JSON_other txt) =
     Inl (Error ''json: cannot unmarshal into Go value of type gotrust.SessionData'')"

text \<open>
  The interface \<open>SessionStore\<close>, over the state \<open>'s\<close> of a backend. Every method returns
  the backend's state after the call. \<open>Get\<close> is used with destinations of two types, so
  the interface has it once for each; a method that reads the clock takes the instant
  of the call.
\<close>

record 's SessionStore =
  Set :: "string \<Rightarrow> json \<Rightarrow> duration \<Rightarrow> time \<Rightarrow> 's \<Rightarrow> error option \<times> 's"
  Get_OAuthState :: "string \<Rightarrow> time \<Rightarrow> 's \<Rightarrow> (error + OAuthState) \<times> 's"
  Get_SessionData :: "string \<Rightarrow> time \<Rightarrow> 's \<Rightarrow> (error + SessionData) \<times> 's"
  Delete :: "string list \<Rightarrow> 's \<Rightarrow> error option \<times> 's"
  Exists :: "string list \<Rightarrow> time \<Rightarrow> 's \<Rightarrow> (error + bool) \<times> 's"

subsection \<open>MemorySessionStore\<close>

text \<open>
  The store is its map; every method runs under the store's lock, and is modelled as one
  step from the map before the call to the map after it.
\<close>

record memoryItem =
  "value" :: json
  expiresAt :: time

type_synonym MemorySessionStore = "string \<rightharpoonup> memoryItem"

definition NewMemorySessionStore :: MemorySessionStore where
  "NewMemorySessionStore = Map.empty"

definition MemorySessionStore_Set ::
  "string \<Rightarrow> json \<Rightarrow> duration \<Rightarrow> time \<Rightarrow> MemorySessionStore \<Rightarrow> error option \<times> MemorySessionStore"
where
  "MemorySessionStore_Set key v expiration now m =
     (case Marshal v of
        Inl err \<Rightarrow> (Some (Errorf_w ''failed to marshal value'' err), m)
      | Inr data \<Rightarrow> (None, m(key \<mapsto> \<lparr>value = data, expiresAt = Add now expiration\<rparr>)))"

definition MemorySessionStore_Get ::
  "string \<Rightarrow> (json \<Rightarrow> error + 'a) \<Rightarrow> time \<Rightarrow> MemorySessionStore \<Rightarrow> (error + 'a) \<times> MemorySessionStore"
where
  "MemorySessionStore_Get key unmarshal now m =
     (case m key of
        None \<Rightarrow> (Inl (Error ''key not found''), m)
      | Some item \<Rightarrow>
          if After now (expiresAt item) then (Inl (Error ''key expired''), m(key := None))
          else (unmarshal (value item), m))"

fun MemorySessionStore_Delete ::
  "string list \<Rightarrow> MemorySessionStore \<Rightarrow> error option \<times> MemorySessionStore"
where
  "MemorySessionStore_Delete [] m = (None, m)"
| "MemorySessionStore_Delete (key # keys) m = MemorySessionStore_Delete keys (m(key := None))"

fun MemorySessionStore_Exists ::
  "string list \<Rightarrow> time \<Rightarrow> MemorySessionStore \<Rightarrow> (error + bool) \<times> MemorySessionStore"
where
  "MemorySessionStore_Exists [] now m = (Inr False, m)"
| "MemorySessionStore_Exists (key # keys) now m =
     (case m key of
        Some item \<Rightarrow>
          if After now (expiresAt item) then MemorySessionStore_Exists keys now m
          else (Inr True, m)
      | None \<Rightarrow> MemorySessionStore_Exists keys now m)"

text \<open>One sweep of the background \<open>cleanup\<close>, at the tick \<open>now\<close>.\<close>

definition cleanup :: "time \<Rightarrow> MemorySessionStore \<Rightarrow> MemorySessionStore" where
  "cleanup now m =
     (\<lambda>key. case m key of
        None \<Rightarrow> None
      | Some item \<Rightarrow> if After now (expiresAt item) then None else Some item)"

definition MemoryStore :: "MemorySessionStore SessionStore" where
  "MemoryStore =
     \<lparr>Set = MemorySessionStore_Set,
      Get_OAuthState = (\<lambda>key. MemorySessionStore_Get key Unmarshal_OAuthState),
      Get_SessionData = (\<lambda>key. MemorySessionStore_Get key Unmarshal_SessionData),
      Delete = MemorySessionStore_Delete,
      Exists = MemorySessionStore_Exists\<rparr>"

subsection \<open>SessionManager\<close>

text \<open>
  \<open>generateRandomString\<close> draws from the system's entropy source; the string it returns
  is an argument of the function that calls it (\<open>sessionID\<close>, \<open>state\<close>, the new user's id).
\<close>

record 's SessionManager =
  store :: "'s SessionStore"
  prefix :: string

definition NewSessionManager :: "'s SessionStore \<Rightarrow> string \<Rightarrow> 's SessionManager" where
  "NewSessionManager store' prefix' =
     \<lparr>store = store', prefix = (if prefix' = [] then ''session'' else prefix')\<rparr>"

definition CreateSession ::
  "'s SessionManager \<Rightarrow> string \<Rightarrow> string \<Rightarrow> duration \<Rightarrow> string \<Rightarrow> time \<Rightarrow> time \<Rightarrow> time \<Rightarrow> 's
     \<Rightarrow> (error + string) \<times> 's"
where
  "CreateSession sm userID email duration' sessionID now_created now_expires now_set s =
     (let sessionData =
            \<lparr>SessionData.UserID = userID, SessionData.Email = email,
             SessionData.CreatedAt = now_created,
             SessionData.ExpiresAt = Add now_expires duration'\<rparr>;
          key = prefix sm @ '':'' @ sessionID
      in case Set (store sm) key (JSON_SessionData sessionData) duration' now_set s of
           (Some err, s') \<Rightarrow> (Inl (Errorf_w ''failed to create session'' err), s')
         | (None, s') \<Rightarrow> (Inr sessionID, s'))"

definition GetSession ::
  "'s SessionManager \<Rightarrow> string \<Rightarrow> time \<Rightarrow> time \<Rightarrow> 's \<Rightarrow> (error + SessionData) \<times> 's"
where
  "GetSession sm sessionID now_get now_check s =
     (let key = prefix sm @ '':'' @ sessionID
      in case Get_SessionData (store sm) key now_get s of
           (Inl err, s') \<Rightarrow> (Inl (Errorf_w ''session not found'' err), s')
         | (Inr sessionData, s') \<Rightarrow>
             if After now_check (SessionData.ExpiresAt sessionData)
             then (Inl (Error ''session expired''), snd (Delete (store sm) [key] s'))
             else (Inr sessionData, s'))"

definition InvalidateSession :: "'s SessionManager \<Rightarrow> string \<Rightarrow> 's \<Rightarrow> error option \<times> 's" where
  "InvalidateSession sm sessionID s = Delete (store sm) [prefix sm @ '':'' @ sessionID] s"

definition InvalidateUserSessions :: "'s SessionManager \<Rightarrow> string \<Rightarrow> 's \<Rightarrow> error option \<times> 's" where
  "InvalidateUserSessions sm userID s = (None, s)"

section \<open>The OAuth exchange engine\<close>

subsection \<open>Query strings (\<open>net/url\<close>)\<close>

definition upperhex :: string where
  "upperhex = ''0123456789ABCDEF''"

text \<open>\<open>shouldEscape\<close> for a query component: letters, digits and \<open>-_.~\<close> stay.\<close>

definition shouldEscape :: "char \<Rightarrow> bool" where
  "shouldEscape c =
     (let n = (of_char c :: nat)
      in if 97 \<le> n \<and> n \<le> 122 then False
         else if 65 \<le> n \<and> n \<le> 90 then False
         else if 48 \<le> n \<and> n \<le> 57 then False
         else c \<notin> set ''-_.~'')"

definition QueryEscape :: "string \<Rightarrow> string" where
  "QueryEscape s =
     concat (map (\<lambda>c.
       if c = CHR '' '' then ''+''
       else if shouldEscape c
       then [CHR ''%'', upperhex ! ((of_char c :: nat) div 16), upperhex ! ((of_char c :: nat) mod 16)]
       else [c]) s)"

text \<open>
  \<open>url.Values\<close> built by successive \<open>Add\<close> is the list of the pairs added;
  \<open>Encode\<close> writes them sorted by key.
\<close>

definition Encode :: "(string \<times> string) list \<Rightarrow> string" where
  "Encode v =
     Join (map (\<lambda>(k, x). QueryEscape k @ ''='' @ QueryEscape x) (sort_key fst v)) ''&''"

subsection \<open>OAuthManager\<close>

record 's OAuthManager =
  config :: Config
  sessionStore :: "'s SessionStore"
  statePrefix :: string

definition NewOAuthManager :: "Config \<Rightarrow> 's SessionStore \<Rightarrow> 's OAuthManager" where
  "NewOAuthManager config' sessionStore' =
     \<lparr>config = config', sessionStore = sessionStore', statePrefix = ''oauth:state''\<rparr>"

definition getGoogleAuthURL :: "'s OAuthManager \<Rightarrow> string \<Rightarrow> error + string" where
  "getGoogleAuthURL o' state =
     (if GoogleClientID (config o') = [] then Inl (Error ''Google OAuth not configured'')
      else
        let params =
              [(''client_id'', GoogleClientID (config o')),
               (''redirect_uri'', GoogleRedirectURI (config o')),
               (''scope'', Join (GoogleScopes (config o')) '' ''),
               (''response_type'', ''code''),
               (''state'', state),
               (''access_type'', ''offline'')]
        in Inr (''https://accounts.google.com/o/oauth2/auth?'' @ Encode params))"

definition getGitHubAuthURL :: "'s OAuthManager \<Rightarrow> string \<Rightarrow> error + string" where
  "getGitHubAuthURL o' state =
     (if GitHubClientID (config o') = [] then Inl (Error ''GitHub OAuth not configured'')
      else
        let params =
              [(''client_id'', GitHubClientID (config o')),
               (''redirect_uri'', GitHubRedirectURI (config o')),
               (''scope'', Join (GitHubScopes (config o')) '' ''),
               (''state'', state)]
        in Inr (''https://github.com/login/oauth/authorize?'' @ Encode params))"

text \<open>
  \<open>GetAuthURL\<close>: \<open>state\<close> is the string drawn by \<open>generateRandomString(32)\<close>,
  \<open>now_state\<close> the clock read for the record's \<open>ExpiresAt\<close>, \<open>now_set\<close> the instant of
  the store's \<open>Set\<close>.
\<close>

definition GetAuthURL ::
  "'s OAuthManager \<Rightarrow> OAuthProvider \<Rightarrow> string \<Rightarrow> string \<Rightarrow> time \<Rightarrow> time \<Rightarrow> 's
     \<Rightarrow> (error + string) \<times> 's"
where
  "GetAuthURL o' provider redirectURI state now_state now_set s =
     (let stateData =
            \<lparr>State = state, RedirectURI = redirectURI,
             OAuthState.ExpiresAt = Add now_state (OAuthStateExpiration (config o'))\<rparr>;
          stateKey = statePrefix o' @ '':'' @ state
      in case Set (sessionStore o') stateKey (JSON_OAuthState stateData)
                (OAuthStateExpiration (config o')) now_set s of
           (Some err, s') \<Rightarrow> (Inl (Errorf_w ''failed to store oauth state'' err), s')
         | (None, s') \<Rightarrow>
             (if provider = ProviderGoogle then getGoogleAuthURL o' state
              else if provider = ProviderGitHub then getGitHubAuthURL o' state
              else Inl (Error (''unsupported provider: '' @ provider)),
              s'))"

text \<open>
  \<open>validateState\<close>: \<open>now_get\<close> is the instant of the store's \<open>Get\<close>, \<open>now_check\<close> the
  clock read for the comparison with the record's \<open>ExpiresAt\<close>. The error of
  \<open>Delete\<close> is dropped, as in the source.
\<close>

definition validateState ::
  "'s OAuthManager \<Rightarrow> string \<Rightarrow> time \<Rightarrow> time \<Rightarrow> 's \<Rightarrow> (error + string) \<times> 's"
where
  "validateState o' state now_get now_check s =
     (let stateKey = statePrefix o' @ '':'' @ state
      in case Get_OAuthState (sessionStore o') stateKey now_get s of
           (Inl err, s') \<Rightarrow> (Inl (Error ''state not found or expired''), s')
         | (Inr stateData, s') \<Rightarrow>
             (let s'' = snd (Delete (sessionStore o') [stateKey] s')
              in if After now_check (OAuthState.ExpiresAt stateData)
                 then (Inl (Error ''state expired''), s'')
                 else (Inr (RedirectURI stateData), s'')))"

text \<open>
  The two callback handlers exchange the code with the provider over HTTP and map the
  provider's profile to \<open>OAuthUserInfo\<close>. What the provider answers is no part of this
  program: the outcome of each handler for a code is an argument of \<open>ValidateCallback\<close>.
\<close>

record Callbacks =
  handleGoogleCallback :: "string \<Rightarrow> error + OAuthUserInfo"
  handleGitHubCallback :: "string \<Rightarrow> error + OAuthUserInfo"

text \<open>A Go result \<open>(userInfo, err)\<close> placed in the triple that \<open>ValidateCallback\<close> returns.\<close>

fun with_redirect ::
  "error + OAuthUserInfo \<Rightarrow> string \<Rightarrow> OAuthUserInfo option \<times> string \<times> error option"
where
  "with_redirect (Inl err) redirectURI = (None, redirectURI, Some err)"
| "with_redirect (Inr userInfo) redirectURI = (Some userInfo, redirectURI, None)"

definition ValidateCallback ::
  "'s OAuthManager \<Rightarrow> Callbacks \<Rightarrow> OAuthProvider \<Rightarrow> string \<Rightarrow> string \<Rightarrow> time \<Rightarrow> time \<Rightarrow> 's
     \<Rightarrow> (OAuthUserInfo option \<times> string \<times> error option) \<times> 's"
where
  "ValidateCallback o' cb provider state code now_get now_check s =
     (case validateState o' state now_get now_check s of
        (Inl err, s') \<Rightarrow> ((None, [], Some (Errorf_w ''invalid state'' err)), s')
      | (Inr redirectURI, s') \<Rightarrow>
          (if provider = ProviderGoogle
           then with_redirect (handleGoogleCallback cb code) redirectURI
           else if provider = ProviderGitHub
           then with_redirect (handleGitHubCallback cb code) redirectURI
           else (None, [], Some (Error (''unsupported provider: '' @ provider))),
           s'))"

section \<open>The auth orchestrator\<close>

text \<open>
  \<open>AuthResponse\<close>, of the data model; its two tokens are serialized tokens.
\<close>

record AuthResponse =
  User :: User
  AccessToken :: tokenString
  RefreshToken :: tokenString
  ExpiresIn :: int

text \<open>
  \<open>ExpiresIn\<close> is \<open>int64(d.Seconds())\<close>, and \<open>d.Seconds()\<close> is computed in 64-bit
  floating point as \<open>float64(sec) + float64(nsec)/1e9\<close> from the whole seconds and the
  remaining nanoseconds of \<open>d\<close>. \<open>float64 p q\<close> is the double nearest to the
  fraction \<open>p/q\<close> (for \<open>0 \<le> p\<close> and \<open>0 < q\<close>), ties going to the even
  mantissa, given again as a fraction; the magnitudes met here are far inside the
  exponent range of doubles, which is not modelled. The conversion to \<open>int64\<close> drops
  the fractional part. From \<open>2^24\<close> seconds on, a duration within a few nanoseconds
  of the next whole second comes out as that next second.
\<close>

function bit_length :: "int \<Rightarrow> nat" where
  "bit_length n = (if n \<le> 0 then 0 else Suc (bit_length (n div 2)))"
  by pat_completeness auto
termination
  by (relation "measure nat") auto

definition round_half_even :: "int \<Rightarrow> int \<Rightarrow> int" where
  "round_half_even p q =
     (let f = p div q; r = p mod q
      in if 2 * r < q then f
         else if q < 2 * r then f + 1
         else if even f then f else f + 1)"

text \<open>The whole part of the binary logarithm of \<open>p/q\<close>, for \<open>0 < p\<close> and \<open>0 < q\<close>.\<close>

definition ilog2 :: "int \<Rightarrow> int \<Rightarrow> int" where
  "ilog2 p q =
     (let g = int (bit_length p) - int (bit_length q)
      in if (if 0 \<le> g then q * 2 ^ nat g \<le> p else q \<le> p * 2 ^ nat (- g)) then g else g - 1)"

definition float64 :: "int \<Rightarrow> int \<Rightarrow> int \<times> int" where
  "float64 p q =
     (if p = 0 then (0, 1)
      else
        let e = ilog2 p q - 52;
            m = (if 0 \<le> e then round_half_even p (q * 2 ^ nat e)
                 else round_half_even (p * 2 ^ nat (- e)) q)
        in if 0 \<le> e then (m * 2 ^ nat e, 1) else (m, 2 ^ nat (- e)))"

definition Seconds :: "duration \<Rightarrow> int \<times> int" where
  "Seconds d =
     (let sec = d div Second; nsec = d mod Second;
          (a1, b1) = float64 sec 1;
          (a2, b2) = float64 nsec 1000000000
      in float64 (a1 * b2 + a2 * b1) (b1 * b2))"

text \<open>
  Go's division and remainder round towards zero, and floating point is symmetric in
  the sign, so a negative duration has the negated seconds of its absolute value.
\<close>

definition Seconds_int64 :: "duration \<Rightarrow> int" where
  "Seconds_int64 d =
     (if d < 0 then - (fst (Seconds (- d)) div snd (Seconds (- d)))
      else fst (Seconds d) div snd (Seconds d))"

text \<open>
  The interface \<open>UserStore\<close>, over the state \<open>'u\<close> of the caller's user storage, and the
  two functions of the password-hash package that the orchestrator calls.
\<close>

record 'u UserStore =
  CreateUser :: "User \<Rightarrow> string \<Rightarrow> 'u \<Rightarrow> error option \<times> 'u"
  GetUserByEmail :: "string \<Rightarrow> 'u \<Rightarrow> (error + User \<times> string) \<times> 'u"
  GetUserByID :: "string \<Rightarrow> 'u \<Rightarrow> (error + User) \<times> 'u"
  UpdateUser :: "User \<Rightarrow> 'u \<Rightarrow> error option \<times> 'u"
  UserExists :: "string \<Rightarrow> 'u \<Rightarrow> (error + bool) \<times> 'u"

record Bcrypt =
  GenerateFromPassword :: "string \<Rightarrow> int \<Rightarrow> error + string"
  CompareHashAndPassword :: "string \<Rightarrow> string \<Rightarrow> error option"

record ('u, 's) AuthService =
  config :: Config
  userStore :: "'u UserStore"
  sessionManager :: "'s SessionManager"
  jwtManager :: JWTManager
  oauthManager :: "'s OAuthManager"

definition NewAuthService ::
  "Config \<Rightarrow> 'u UserStore \<Rightarrow> 's SessionStore \<Rightarrow> ('u, 's) AuthService"
where
  "NewAuthService config' userStore' sessionStore' =
     \<lparr>AuthService.config = config',
      userStore = userStore',
      sessionManager = NewSessionManager sessionStore' ''session'',
      jwtManager = NewJWTManager (JWTSecret config') (JWTIssuer config') (JWTExpiration config'),
      oauthManager = NewOAuthManager config' sessionStore'\<rparr>"

text \<open>
  What \<open>generateAuthResponse\<close> takes from the clock and the entropy source, in the order
  of the source: the instants of the two token issues, and the session id and the three
  instants of \<open>CreateSession\<close>.
\<close>

record Draws =
  at_access :: time
  at_refresh :: time
  session_id :: string
  at_created :: time
  at_expires :: time
  at_set :: time

text \<open>
  \<open>generateAuthResponse\<close>. An error of \<open>CreateSession\<close> is printed and dropped; the
  printed line is not modelled.
\<close>

definition generateAuthResponse ::
  "('u, 's) AuthService \<Rightarrow> User \<Rightarrow> Draws \<Rightarrow> 's \<Rightarrow> (error + AuthResponse) \<times> 's"
where
  "generateAuthResponse a user d s =
     (let claims =
            \<lparr>TokenClaims.UserID = User.ID user, TokenClaims.Email = User.Email user,
             TokenClaims.Name = User.Name user, TokenClaims.Provider = User.Provider user\<rparr>
      in case GenerateToken (jwtManager a) claims (at_access d) of
           Inl err \<Rightarrow> (Inl (Errorf_w ''failed to generate access token'' err), s)
         | Inr accessToken \<Rightarrow>
             (case GenerateRefreshToken (jwtManager a) (User.ID user) (at_refresh d) of
                Inl err \<Rightarrow> (Inl (Errorf_w ''failed to generate refresh token'' err), s)
              | Inr refreshToken \<Rightarrow>
                  (let (created, s') =
                         CreateSession (sessionManager a) (User.ID user) (User.Email user)
                           (JWTExpiration (AuthService.config a)) (session_id d)
                           (at_created d) (at_expires d) (at_set d) s
                   in (Inr \<lparr>User = user, AccessToken = accessToken,
                            RefreshToken = refreshToken,
                            ExpiresIn = Seconds_int64 (JWTExpiration (AuthService.config a))\<rparr>,
                       s'))))"

text \<open>
  \<open>SignUp\<close>: \<open>newID\<close> is the string drawn by \<open>generateRandomString(16)\<close>, \<open>now_c\<close> and
  \<open>now_u\<close> the clock read for \<open>CreatedAt\<close> and \<open>UpdatedAt\<close>.
\<close>

definition SignUp ::
  "('u, 's) AuthService \<Rightarrow> Bcrypt \<Rightarrow> SignUpRequest \<Rightarrow> string \<Rightarrow> time \<Rightarrow> time \<Rightarrow> Draws
     \<Rightarrow> 'u \<Rightarrow> 's \<Rightarrow> (error + AuthResponse) \<times> 'u \<times> 's"
where
  "SignUp a bc req newID now_c now_u d u s =
     (if \<not> AllowSignup (AuthService.config a) then (Inl (Error ''signup is disabled''), u, s)
      else case UserExists (userStore a) (SignUpRequest.Email req) u of
        (Inl err, u1) \<Rightarrow> (Inl (Errorf_w ''failed to check user existence'' err), u1, s)
      | (Inr exists, u1) \<Rightarrow>
          (if exists then (Inl (Error ''user already exists''), u1, s)
           else case GenerateFromPassword bc (SignUpRequest.Password req)
                       (BCryptCost (AuthService.config a)) of
             Inl err \<Rightarrow> (Inl (Errorf_w ''failed to hash password'' err), u1, s)
           | Inr hashedPassword \<Rightarrow>
               (let user =
                      \<lparr>User.ID = newID, User.Email = SignUpRequest.Email req,
                       User.Name = SignUpRequest.Name req, User.AvatarURL = [],
                       User.Provider = ProviderLocal, User.CreatedAt = now_c,
                       User.UpdatedAt = now_u\<rparr>
                in case CreateUser (userStore a) user hashedPassword u1 of
                     (Some err, u2) \<Rightarrow> (Inl (Errorf_w ''failed to create user'' err), u2, s)
                   | (None, u2) \<Rightarrow>
                       (let (r, s') = generateAuthResponse a user d s in (r, u2, s')))))"

definition SignIn ::
  "('u, 's) AuthService \<Rightarrow> Bcrypt \<Rightarrow> SignInRequest \<Rightarrow> Draws
     \<Rightarrow> 'u \<Rightarrow> 's \<Rightarrow> (error + AuthResponse) \<times> 'u \<times> 's"
where
  "SignIn a bc req d u s =
     (case GetUserByEmail (userStore a) (SignInRequest.Email req) u of
        (Inl err, u1) \<Rightarrow> (Inl (Error ''invalid credentials''), u1, s)
      | (Inr (user, hashedPassword), u1) \<Rightarrow>
          (case CompareHashAndPassword bc hashedPassword (SignInRequest.Password req) of
             Some err \<Rightarrow> (Inl (Error ''invalid credentials''), u1, s)
           | None \<Rightarrow> (let (r, s') = generateAuthResponse a user d s in (r, u1, s'))))"

text \<open>
  \<open>OAuthSignIn\<close>: \<open>now_get\<close> and \<open>now_check\<close> are the instants of \<open>validateState\<close>,
  \<open>now_c\<close> and \<open>now_u\<close> the clock read for \<open>CreatedAt\<close> and \<open>UpdatedAt\<close>. An error of
  \<open>UpdateUser\<close> is printed and dropped. A nil user info beside a nil error would be a
  nil dereference.
\<close>

definition OAuthSignIn ::
  "('u, 's) AuthService \<Rightarrow> Callbacks \<Rightarrow> OAuthProvider \<Rightarrow> string \<Rightarrow> string
     \<Rightarrow> time \<Rightarrow> time \<Rightarrow> time \<Rightarrow> time \<Rightarrow> Draws
     \<Rightarrow> 'u \<Rightarrow> 's \<Rightarrow> (error + AuthResponse) \<times> 'u \<times> 's"
where
  "OAuthSignIn a cb provider state code now_get now_check now_c now_u d u s =
     (case ValidateCallback (oauthManager a) cb provider state code now_get now_check s of
        ((_, _, Some err), s1) \<Rightarrow> (Inl (Errorf_w ''oauth validation failed'' err), u, s1)
      | ((None, _, None), s1) \<Rightarrow>
          (Inl (Error ''panic: invalid memory address or nil pointer dereference''), u, s1)
      | ((Some oauthUser, _, None), s1) \<Rightarrow>
          (if OAuthUserInfo.Email oauthUser = []
           then (Inl (Error ''email is required from OAuth provider''), u, s1)
           else case GetUserByEmail (userStore a) (OAuthUserInfo.Email oauthUser) u of
             (Inl err, u1) \<Rightarrow>
               (let user =
                      \<lparr>User.ID = provider @ ''_'' @ OAuthUserInfo.ID oauthUser,
                       User.Email = OAuthUserInfo.Email oauthUser,
                       User.Name = OAuthUserInfo.Name oauthUser,
                       User.AvatarURL = OAuthUserInfo.AvatarURL oauthUser,
                       User.Provider = OAuthUserInfo.Provider oauthUser,
                       User.CreatedAt = now_c, User.UpdatedAt = now_u\<rparr>
                in case CreateUser (userStore a) user [] u1 of
                     (Some err', u2) \<Rightarrow>
                       (Inl (Errorf_w ''failed to create OAuth user'' err'), u2, s1)
                   | (None, u2) \<Rightarrow>
                       (let (r, s2) = generateAuthResponse a user d s1 in (r, u2, s2)))
           | (Inr (found, hashedPassword), u1) \<Rightarrow>
               (let user = found\<lparr>User.Name := OAuthUserInfo.Name oauthUser,
                                 User.AvatarURL := OAuthUserInfo.AvatarURL oauthUser,
                                 User.UpdatedAt := now_u\<rparr>;
                    u2 = snd (UpdateUser (userStore a) user u1);
                    (r, s2) = generateAuthResponse a user d s1
                in (r, u2, s2))))"

definition RefreshToken' ::
  "('u, 's) AuthService \<Rightarrow> tokenString \<Rightarrow> time \<Rightarrow> Draws
     \<Rightarrow> 'u \<Rightarrow> 's \<Rightarrow> (error + AuthResponse) \<times> 'u \<times> 's"
where
  "RefreshToken' a refreshToken now d u s =
     (case ValidateRefreshToken (jwtManager a) refreshToken now of
        Inl err \<Rightarrow> (Inl (Errorf_w ''invalid refresh token'' err), u, s)
      | Inr userID \<Rightarrow>
          (case GetUserByID (userStore a) userID u of
             (Inl err, u1) \<Rightarrow> (Inl (Errorf_w ''user not found'' err), u1, s)
           | (Inr user, u1) \<Rightarrow>
               (let (r, s') = generateAuthResponse a user d s in (r, u1, s'))))"

definition GetOAuthURL ::
  "('u, 's) AuthService \<Rightarrow> OAuthProvider \<Rightarrow> string \<Rightarrow> string \<Rightarrow> time \<Rightarrow> time \<Rightarrow> 's
     \<Rightarrow> (error + string) \<times> 's"
where
  "GetOAuthURL a provider redirectURI state now_state now_set s =
     GetAuthURL (oauthManager a) provider
       (if redirectURI = [] then FrontendSuccessURL (AuthService.config a) else redirectURI)
       state now_state now_set s"

definition Logout :: "('u, 's) AuthService \<Rightarrow> string \<Rightarrow> 's \<Rightarrow> error option \<times> 's" where
  "Logout a sessionID s =
     (if sessionID \<noteq> [] then InvalidateSession (sessionManager a) sessionID s else (None, s))"

text \<open>The orchestrator's \<open>ValidateToken\<close> and \<open>GetSession\<close> hand over to the managers.\<close>

definition AuthService_ValidateToken ::
  "('u, 's) AuthService \<Rightarrow> tokenString \<Rightarrow> time \<Rightarrow> error + TokenClaims"
where
  "AuthService_ValidateToken a token now = ValidateToken (jwtManager a) token now"

definition AuthService_GetSession ::
  "('u, 's) AuthService \<Rightarrow> string \<Rightarrow> time \<Rightarrow> time \<Rightarrow> 's \<Rightarrow> (error + SessionData) \<times> 's"
where
  "AuthService_GetSession a sessionID now_get now_check s =
     GetSession (sessionManager a) sessionID now_get now_check s"

section \<open>Observations and concrete instances used in the theorems\<close>

text \<open>The number stored under a claim name in the payload of a generated token.\<close>

fun numeric_claim :: "error + tokenString \<Rightarrow> string \<Rightarrow> int option" where
  "numeric_claim (Inr (Compact alg claims sig)) k =
     (case index claims k of Some (Number n) \<Rightarrow> Some n | _ \<Rightarrow> None)"
| "numeric_claim (Inr (Malformed s)) k = None"
| "numeric_claim (Inl err) k = None"

text \<open>
  The claims that \<open>generateAuthResponse\<close> puts into the access token of a user, and the
  response it builds from the two tokens.
\<close>

definition claims_of :: "User \<Rightarrow> TokenClaims" where
  "claims_of user =
     \<lparr>TokenClaims.UserID = User.ID user, TokenClaims.Email = User.Email user,
      TokenClaims.Name = User.Name user, TokenClaims.Provider = User.Provider user\<rparr>"

definition response_of ::
  "('u, 's) AuthService \<Rightarrow> User \<Rightarrow> tokenString \<Rightarrow> tokenString \<Rightarrow> AuthResponse"
where
  "response_of a user accessToken refreshToken =
     \<lparr>User = user, AccessToken = accessToken, RefreshToken = refreshToken,
      ExpiresIn = Seconds_int64 (JWTExpiration (AuthService.config a))\<rparr>"

text \<open>
  A configuration with GitHub configured and Google not, the defaults of \<open>NewConfig\<close>
  elsewhere; the instant \<open>t0\<close> (2026-11-03 00:00:00 UTC) at which the examples start.
\<close>

definition config0 :: Config where
  "config0 =
     \<lparr>JWTSecret = ''0123456789abcdef0123456789abcdef'',
      JWTExpiration = 24 * Hour,
      JWTIssuer = ''gotrust'',
      GoogleClientID = [],
      GoogleClientSecret = [],
      GoogleRedirectURI = ''http://localhost:4000/auth/google/callback'',
      GoogleScopes = [''email'', ''profile''],
      GitHubClientID = ''gh-client'',
      GitHubClientSecret = ''gh-secret'',
      GitHubRedirectURI = ''http://localhost:4000/auth/github/callback'',
      GitHubScopes = [''user:email''],
      OAuthStateExpiration = 10 * Minute,
      FrontendSuccessURL = ''http://localhost:3000/auth/success'',
      FrontendErrorURL = ''http://localhost:3000/auth/error'',
      RedisURL = [],
      EnableRedisCache = False,
      BCryptCost = 10,
      AllowSignup = True,
      RequireEmailVerification = False\<rparr>"

definition t0 :: time where
  "t0 = 1793664000 * Second"

definition jwt0 :: JWTManager where
  "jwt0 = NewJWTManager (JWTSecret config0) (JWTIssuer config0) (JWTExpiration config0)"

definition claims0 :: TokenClaims where
  "claims0 =
     \<lparr>TokenClaims.UserID = ''user123'', TokenClaims.Email = ''test@example.com'',
      TokenClaims.Name = ''Test'', TokenClaims.Provider = ''local''\<rparr>"

definition oauth0 :: "MemorySessionStore OAuthManager" where
  "oauth0 = NewOAuthManager config0 MemoryStore"

definition sessions0 :: "MemorySessionStore SessionManager" where
  "sessions0 = NewSessionManager MemoryStore ''session''"

text \<open>
  A store holding one pending state \<open>good\<close>, issued at \<open>t0\<close> and stored one
  millisecond later, and one session \<open>sid\<close> created for an hour at \<open>t0\<close> and stored
  one millisecond later.
\<close>

definition state0 :: OAuthState where
  "state0 =
     \<lparr>State = ''good'', RedirectURI = ''http://localhost:3000/done'',
      OAuthState.ExpiresAt = t0 + 10 * Minute\<rparr>"

definition session0 :: SessionData where
  "session0 =
     \<lparr>SessionData.UserID = ''user123'', SessionData.Email = ''test@example.com'',
      SessionData.CreatedAt = t0, SessionData.ExpiresAt = t0 + Hour\<rparr>"

definition store0 :: MemorySessionStore where
  "store0 =
     [''oauth:state:good'' \<mapsto>
        \<lparr>value = JSON_OAuthState state0, expiresAt = t0 + 1000000 + 10 * Minute\<rparr>,
      ''session:sid'' \<mapsto>
        \<lparr>value = JSON_SessionData session0, expiresAt = t0 + 1000000 + Hour\<rparr>]"

definition info0 :: OAuthUserInfo where
  "info0 =
     \<lparr>OAuthUserInfo.ID = ''42'', OAuthUserInfo.Email = ''test@example.com'',
      OAuthUserInfo.Name = ''Test'', OAuthUserInfo.AvatarURL = [],
      OAuthUserInfo.Provider = ''github''\<rparr>"

text \<open>Providers that answer every code with the profile \<open>info0\<close>, or with a failure.\<close>

definition callbacks_ok :: Callbacks where
  "callbacks_ok =
     \<lparr>handleGoogleCallback = (\<lambda>code. Inr (info0\<lparr>OAuthUserInfo.Provider := ''google''\<rparr>)),
      handleGitHubCallback = (\<lambda>code. Inr info0)\<rparr>"

definition callbacks_down :: Callbacks where
  "callbacks_down =
     \<lparr>handleGoogleCallback = (\<lambda>code. Inl (Error ''token exchange failed with status: 500'')),
      handleGitHubCallback = (\<lambda>code. Inl (Error ''token exchange failed with status: 500''))\<rparr>"

text \<open>
  A user store over a list of users with their password hashes, in the manner of the
  in-memory store of the repository's examples; a stand-in for the password-hash package
  that marks a password instead of hashing it; a session store that reads and deletes
  like the in-memory store while every \<open>Set\<close> fails, as a backend does whose writes
  are refused; and a session store that reads and writes like the in-memory store
  while every \<open>Delete\<close> fails, as a networked backend does when the connection
  drops after the \<open>Get\<close>.
\<close>

definition by_email :: "string \<Rightarrow> User \<times> string \<Rightarrow> bool" where
  "by_email email entry = (User.Email (fst entry) = email)"

definition by_id :: "string \<Rightarrow> User \<times> string \<Rightarrow> bool" where
  "by_id userID entry = (User.ID (fst entry) = userID)"

definition ListUserStore :: "(User \<times> string) list UserStore" where
  "ListUserStore =
     \<lparr>CreateUser = (\<lambda>user hashedPassword us.
        case find (by_email (User.Email user)) us of
          Some found \<Rightarrow> (Some (Error ''user already exists''), us)
        | None \<Rightarrow> (None, us @ [(user, hashedPassword)])),
      GetUserByEmail = (\<lambda>email us.
        case find (by_email email) us of
          None \<Rightarrow> (Inl (Error ''user not found''), us)
        | Some found \<Rightarrow> (Inr found, us)),
      GetUserByID = (\<lambda>userID us.
        case find (by_id userID) us of
          None \<Rightarrow> (Inl (Error ''user not found''), us)
        | Some found \<Rightarrow> (Inr (fst found), us)),
      UpdateUser = (\<lambda>user us.
        case find (by_email (User.Email user)) us of
          None \<Rightarrow> (Some (Error ''user not found''), us)
        | Some found \<Rightarrow>
            (None, map (\<lambda>entry. if by_email (User.Email user) entry
                                 then (user, snd entry) else entry) us)),
      UserExists = (\<lambda>email us.
        case find (by_email email) us of
          None \<Rightarrow> (Inr False, us)
        | Some found \<Rightarrow> (Inr True, us))\<rparr>"

definition bcrypt0 :: Bcrypt where
  "bcrypt0 =
     \<lparr>GenerateFromPassword = (\<lambda>password cost. Inr (''hashed:'' @ password)),
      CompareHashAndPassword = (\<lambda>hashedPassword password.
        if hashedPassword = ''hashed:'' @ password then None
        else Some (Error ''hashedPassword is not the hash of the given password''))\<rparr>"

definition RefusingStore :: "MemorySessionStore SessionStore" where
  "RefusingStore =
     \<lparr>Set = (\<lambda>key v expiration now m. (Some (Error ''connection refused''), m)),
      Get_OAuthState = (\<lambda>key. MemorySessionStore_Get key Unmarshal_OAuthState),
      Get_SessionData = (\<lambda>key. MemorySessionStore_Get key Unmarshal_SessionData),
      Delete = MemorySessionStore_Delete,
      Exists = MemorySessionStore_Exists\<rparr>"

definition UndeletingStore :: "MemorySessionStore SessionStore" where
  "UndeletingStore =
     \<lparr>Set = MemorySessionStore_Set,
      Get_OAuthState = (\<lambda>key. MemorySessionStore_Get key Unmarshal_OAuthState),
      Get_SessionData = (\<lambda>key. MemorySessionStore_Get key Unmarshal_SessionData),
      Delete = (\<lambda>keys m. (Some (Error ''connection reset by peer''), m)),
      Exists = MemorySessionStore_Exists\<rparr>"

definition oauth_undeleting :: "MemorySessionStore OAuthManager" where
  "oauth_undeleting = NewOAuthManager config0 UndeletingStore"

definition user0 :: User where
  "user0 =
     \<lparr>User.ID = ''user123'', User.Email = ''test@example.com'', User.Name = ''Test'',
      User.AvatarURL = [], User.Provider = ''local'', User.CreatedAt = t0,
      User.UpdatedAt = t0\<rparr>"

definition users0 :: "(User \<times> string) list" where
  "users0 = [(user0, ''hashed:pw123456'')]"

definition service0 :: "((User \<times> string) list, MemorySessionStore) AuthService" where
  "service0 = NewAuthService config0 ListUserStore MemoryStore"

definition service_refused :: "((User \<times> string) list, MemorySessionStore) AuthService" where
  "service_refused = NewAuthService config0 ListUserStore RefusingStore"

definition draws0 :: Draws where
  "draws0 =
     \<lparr>at_access = t0 + 2 * Second, at_refresh = t0 + 2 * Second + 1000,
      session_id = ''sid2'', at_created = t0 + 2 * Second + 2000,
      at_expires = t0 + 2 * Second + 3000, at_set = t0 + 2 * Second + 4000\<rparr>"

section \<open>Properties of strings in JSON\<close>

lemma tail_ok_length: "tail_ok n lo hi s \<Longrightarrow> n - 1 \<le> length s"
  by (auto simp add: tail_ok_def Let_def min_def split: if_splits)

lemma tail_ok_prefix: "tail_ok n lo hi s \<Longrightarrow> tail_ok n lo hi (take (n - 1) s @ t)"
  by (simp add: tail_ok_def Let_def)

lemma rune_size_length: "rune_size (c # r) - 1 \<le> length r"
  by (auto simp add: rune_size_def dest: tail_ok_length split: option.splits)

lemma rune_size_prefix:
  assumes "rune_size (c # r) \<noteq> 0"
  shows "rune_size (c # take (rune_size (c # r) - 1) r @ t) = rune_size (c # r)"
proof (cases "inside 0 127 c")
  case True
  then show ?thesis by (simp add: rune_size_def)
next
  case False
  with assms obtain n lo hi where l: "lead c = Some (n, lo, hi)" and ok: "tail_ok n lo hi r"
    by (auto simp add: rune_size_def split: option.splits if_splits)
  then have n: "rune_size (c # r) = n"
    using False by (simp add: rune_size_def)
  from ok have "tail_ok n lo hi (take (n - 1) r @ t)" by (rule tail_ok_prefix)
  then show ?thesis
    unfolding n using False l by (simp add: rune_size_def)
qed

lemma rune_size_replacement: "rune_size (replacement @ t) = 3"
  by (simp add: replacement_def rune_size_def lead_def inside_def tail_ok_def)

lemma ValidString_coerceUTF8: "ValidString s \<Longrightarrow> coerceUTF8 s = s"
  by (induction s rule: coerceUTF8.induct) simp_all

lemma coerceUTF8_ValidString: "ValidString (coerceUTF8 s)"
proof (induction s rule: coerceUTF8.induct)
  case 1
  then show ?case by simp
next
  case (2 c r)
  show ?case
  proof (cases "rune_size (c # r) = 0")
    case True
    have "ValidString (replacement @ coerceUTF8 r)"
      using 2(1) [OF True] rune_size_replacement [of "coerceUTF8 r"]
      by (simp add: replacement_def)
    with True show ?thesis by simp
  next
    case False
    have len: "length (take (rune_size (c # r) - 1) r) = rune_size (c # r) - 1"
      using rune_size_length [of c r] by simp
    have "ValidString
        (c # take (rune_size (c # r) - 1) r @ coerceUTF8 (drop (rune_size (c # r) - 1) r))"
      using 2(2) [OF False] rune_size_prefix [OF False] False len
      by simp
    with False show ?thesis by simp
  qed
qed

lemma coerceUTF8_idem: "coerceUTF8 (coerceUTF8 s) = coerceUTF8 s"
  by (rule ValidString_coerceUTF8) (rule coerceUTF8_ValidString)

lemma coerceUTF8_eq_Nil: "coerceUTF8 s = [] \<longleftrightarrow> s = []"
  by (cases s) (simp_all add: replacement_def)

lemma ValidString_ascii: "list_all (inside 0 127) s \<Longrightarrow> ValidString s"
  by (induction s) (simp_all add: rune_size_def)

lemma coerceUTF8_ascii: "list_all (inside 0 127) s \<Longrightarrow> coerceUTF8 s = s"
  by (rule ValidString_coerceUTF8) (rule ValidString_ascii)

section \<open>Properties of the token engine\<close>

declare coerceUTF8.simps [simp del] ValidString.simps [simp del]

lemmas string_eval = coerceUTF8_ascii ValidString_ascii inside_def

lemma Unix_floor: "Unix t * Second \<le> t"
  by (simp add: Unix_def Second_def)

lemmas time_defs = Unix_def Add_def Hour_def Minute_def Second_def

lemmas validate_defs =
  Let_def keyFunc_def signing_methods_def hmac_methods_def Validate_def verifyExpiresAt_def
  verifyNotBefore_def parseNumericDate_def index_def Before_def json_claims_def

text \<open>
  Claim C3, as the code has it. For every \<open>TokenClaims\<close> with a non-empty user id
  whose user id, email, name and provider are valid UTF-8, the token that
  \<open>GenerateToken\<close> issues at the instant \<open>issued\<close> is accepted by \<open>ValidateToken\<close> of
  the same manager at every instant \<open>now\<close> from \<open>issued\<close> on and before the second
  of its \<open>exp\<close> claim, and the claims returned are the claims put in: the same user
  id, email, name and provider. The token is always issued. (A validation before the
  expiry second exists only for a positive lifetime.)
\<close>

theorem ValidateToken_GenerateToken:
  assumes "TokenClaims.UserID claims \<noteq> []"
    and "ValidString (TokenClaims.UserID claims)"
    and "ValidString (TokenClaims.Email claims)"
    and "ValidString (TokenClaims.Name claims)"
    and "ValidString (TokenClaims.Provider claims)"
    and "issued \<le> now"
    and "now < Unix (Add issued (expiresIn j)) * Second"
  shows "\<exists>tok. GenerateToken j claims issued = Inr tok \<and> ValidateToken j tok now = Inr claims"
proof -
  have nbf: "Unix issued * Second \<le> now"
    using Unix_floor [of issued] assms(6) by linarith
  show ?thesis
    using assms(1,7) nbf
    by (simp add: GenerateToken_def SignedString_def ValidateToken_def validate_defs
        claim_string_def ValidString_coerceUTF8 [OF assms(2)] ValidString_coerceUTF8 [OF assms(3)]
        ValidString_coerceUTF8 [OF assms(4)] ValidString_coerceUTF8 [OF assms(5)])
qed

theorem ValidateToken_GenerateToken_witness:
  "TokenClaims.UserID claims0 \<noteq> [] \<and>
   ValidString (TokenClaims.UserID claims0) \<and> ValidString (TokenClaims.Email claims0) \<and>
   ValidString (TokenClaims.Name claims0) \<and> ValidString (TokenClaims.Provider claims0) \<and>
   t0 \<le> t0 + Hour \<and> t0 + Hour < Unix (Add t0 (expiresIn jwt0)) * Second \<and>
   (\<exists>tok. GenerateToken jwt0 claims0 t0 = Inr tok \<and>
      ValidateToken jwt0 tok (t0 + Hour) = Inr claims0)"
proof -
  have a: "TokenClaims.UserID claims0 \<noteq> []" by (simp add: claims0_def)
  have v: "ValidString (TokenClaims.UserID claims0)" "ValidString (TokenClaims.Email claims0)"
    "ValidString (TokenClaims.Name claims0)" "ValidString (TokenClaims.Provider claims0)"
    by (simp_all add: claims0_def string_eval)
  have b: "t0 \<le> t0 + Hour" by (simp add: Hour_def Minute_def Second_def)
  have c: "t0 + Hour < Unix (Add t0 (expiresIn jwt0)) * Second"
    by (simp add: jwt0_def NewJWTManager_def config0_def t0_def time_defs)
  from ValidateToken_GenerateToken [OF a v b c] a v b c show ?thesis by blast
qed

text \<open>
  Claim C3 says this of every \<open>TokenClaims\<close> with a non-empty user id. It does not hold
  of a string that is no valid UTF-8: the token's payload is JSON, and a user id of
  the one byte \<open>0xFF\<close> comes back as the three bytes of U+FFFD.
\<close>

theorem round_trip_of_invalid_UTF8:
  "ValidateToken jwt0
     (projr (GenerateToken jwt0 (claims0\<lparr>TokenClaims.UserID := [CHR 0xFF]\<rparr>) t0)) (t0 + Hour) =
     Inr (claims0\<lparr>TokenClaims.UserID := [CHR 0xEF, CHR 0xBF, CHR 0xBD]\<rparr>) \<and>
   claims0\<lparr>TokenClaims.UserID := [CHR 0xEF, CHR 0xBF, CHR 0xBD]\<rparr> \<noteq>
     claims0\<lparr>TokenClaims.UserID := [CHR 0xFF]\<rparr>"
proof -
  have bad: "coerceUTF8 [CHR 0xFF] = [CHR 0xEF, CHR 0xBF, CHR 0xBD]"
    by code_simp
  have good: "coerceUTF8 [CHR 0xEF, CHR 0xBF, CHR 0xBD] = [CHR 0xEF, CHR 0xBF, CHR 0xBD]"
    by code_simp
  show ?thesis
    by (simp add: GenerateToken_def SignedString_def ValidateToken_def validate_defs
        claim_string_def jwt0_def NewJWTManager_def config0_def claims0_def t0_def time_defs
        bad good string_eval)
qed

text \<open>
  Claim C1. The claim says that neither token kind passes the other kind's validator.
  The code keeps one half only: \<open>ValidateToken\<close> never looks at the \<open>type\<close> claim, so
  a refresh token issued for a non-empty user id passes it during its thirty days, and
  comes back as access claims with that user id (as the token's JSON has it, which for
  valid UTF-8 is the user id itself) and empty email, name and provider.
\<close>

theorem refresh_token_passes_ValidateToken:
  assumes "userID \<noteq> []"
    and "now < Unix (Add issued (30 * 24 * Hour)) * Second"
  shows "\<exists>tok. GenerateRefreshToken j userID issued = Inr tok \<and>
           ValidateToken j tok now =
             Inr \<lparr>TokenClaims.UserID = coerceUTF8 userID, TokenClaims.Email = [],
                  TokenClaims.Name = [], TokenClaims.Provider = []\<rparr> \<and>
           (ValidString userID \<longrightarrow>
              ValidateToken j tok now =
                Inr \<lparr>TokenClaims.UserID = userID, TokenClaims.Email = [],
                     TokenClaims.Name = [], TokenClaims.Provider = []\<rparr>)"
  using assms
  by (auto simp add: GenerateRefreshToken_def SignedString_def ValidateToken_def
      validate_defs claim_string_def coerceUTF8_idem coerceUTF8_eq_Nil ValidString_coerceUTF8)

theorem refresh_token_passes_ValidateToken_witness:
  "''user123'' \<noteq> [] \<and> t0 + 25 * Hour < Unix (Add t0 (30 * 24 * Hour)) * Second \<and>
   ValidString ''user123'' \<and>
   (\<exists>tok. GenerateRefreshToken jwt0 ''user123'' t0 = Inr tok \<and>
      ValidateToken jwt0 tok (t0 + 25 * Hour) =
        Inr \<lparr>TokenClaims.UserID = ''user123'', TokenClaims.Email = [],
             TokenClaims.Name = [], TokenClaims.Provider = []\<rparr>)"
proof -
  have a: "''user123'' \<noteq> []" by simp
  have b: "t0 + 25 * Hour < Unix (Add t0 (30 * 24 * Hour)) * Second"
    by (simp add: t0_def time_defs)
  have v: "ValidString ''user123''"
    by (simp add: string_eval)
  from refresh_token_passes_ValidateToken [OF a b, of jwt0] a b v show ?thesis by blast
qed

text \<open>
  The other half holds: an access token has no \<open>type\<close> claim, and
  \<open>ValidateRefreshToken\<close> rejects it at every instant.
\<close>

lemma ValidateRefreshToken_signed:
  "ValidateRefreshToken j (Compact ''HS256'' payload (HMAC ''HS256'' (secret j) payload)) now =
     (case Validate (json_claims payload) now of
        Some e \<Rightarrow> Inl (Errorf_w ''failed to parse refresh token'' e)
      | None \<Rightarrow>
          if claim_string (json_claims payload) ''type'' \<noteq> ''refresh''
          then Inl (Error ''not a refresh token'')
          else if claim_string (json_claims payload) ''user_id'' = []
          then Inl (Error ''user_id not found in refresh token'')
          else Inr (claim_string (json_claims payload) ''user_id''))"
  by (simp add: ValidateRefreshToken_def keyFunc_def signing_methods_def hmac_methods_def Let_def
      split: option.splits)

lemma access_token_fails_ValidateRefreshToken:
  assumes "GenerateToken j claims issued = Inr tok"
  shows "isl (ValidateRefreshToken j tok now)"
proof -
  obtain payload where tok: "tok = Compact ''HS256'' payload (HMAC ''HS256'' (secret j) payload)"
    and ty: "claim_string (json_claims payload) ''type'' = []"
    using assms
    by (auto simp add: GenerateToken_def SignedString_def Let_def claim_string_def index_def
        json_claims_def)
  show ?thesis
    unfolding tok ValidateRefreshToken_signed using ty
    by (simp split: option.splits)
qed

text \<open>
  Claim C8. The refresh token's \<open>exp\<close> claim is its \<open>iat\<close> claim plus thirty days
  (2592000 seconds), whatever the configured access lifetime: changing \<open>expiresIn\<close>
  does not change the refresh token. The access token's \<open>iat\<close> is the second of the
  instant of issue and its \<open>exp\<close> the second of that instant plus the configured
  lifetime, which is \<open>iat\<close> plus the lifetime in seconds whenever the lifetime is a
  whole number of seconds.
\<close>

theorem token_expiry_windows:
  "numeric_claim (GenerateRefreshToken j userID now) ''iat'' = Some (Unix now) \<and>
   numeric_claim (GenerateRefreshToken j userID now) ''exp'' = Some (Unix now + 30 * 24 * 3600) \<and>
   GenerateRefreshToken (j\<lparr>expiresIn := d\<rparr>) userID now = GenerateRefreshToken j userID now \<and>
   numeric_claim (GenerateToken j claims now) ''iat'' = Some (Unix now) \<and>
   numeric_claim (GenerateToken j claims now) ''exp'' = Some (Unix (Add now (expiresIn j))) \<and>
   (expiresIn j mod Second = 0 \<longrightarrow>
      numeric_claim (GenerateToken j claims now) ''exp'' = Some (Unix now + expiresIn j div Second))"
proof -
  have r_iat: "numeric_claim (GenerateRefreshToken j userID now) ''iat'' = Some (Unix now)"
    by (simp add: GenerateRefreshToken_def SignedString_def index_def Let_def json_claims_def)
  have r_exp: "numeric_claim (GenerateRefreshToken j userID now) ''exp'' = Some (Unix now + 30 * 24 * 3600)"
    by (simp add: GenerateRefreshToken_def SignedString_def index_def Let_def json_claims_def time_defs)
  have r_ind: "GenerateRefreshToken (j\<lparr>expiresIn := d\<rparr>) userID now = GenerateRefreshToken j userID now"
    by (simp add: GenerateRefreshToken_def SignedString_def)
  have a_iat: "numeric_claim (GenerateToken j claims now) ''iat'' = Some (Unix now)"
    by (simp add: GenerateToken_def SignedString_def index_def Let_def json_claims_def)
  have a_exp: "numeric_claim (GenerateToken j claims now) ''exp'' = Some (Unix (Add now (expiresIn j)))"
    by (simp add: GenerateToken_def SignedString_def index_def Let_def json_claims_def)
  have whole: "Unix (Add now (expiresIn j)) = Unix now + expiresIn j div Second"
    if "expiresIn j mod Second = 0"
  proof -
    from that have "Second dvd expiresIn j" by (simp add: dvd_eq_mod_eq_0)
    then show ?thesis by (simp add: Unix_def Add_def div_plus_div_distrib_dvd_right)
  qed
  from r_iat r_exp r_ind a_iat a_exp whole show ?thesis by simp
qed

theorem token_expiry_windows_witness:
  "numeric_claim (GenerateRefreshToken jwt0 ''user123'' (t0 + 500000000)) ''iat'' = Some 1793664000 \<and>
   numeric_claim (GenerateRefreshToken jwt0 ''user123'' (t0 + 500000000)) ''exp'' = Some 1796256000 \<and>
   GenerateRefreshToken (jwt0\<lparr>expiresIn := Second\<rparr>) ''user123'' (t0 + 500000000) =
     GenerateRefreshToken jwt0 ''user123'' (t0 + 500000000) \<and>
   numeric_claim (GenerateToken jwt0 claims0 (t0 + 500000000)) ''iat'' = Some 1793664000 \<and>
   expiresIn jwt0 mod Second = 0 \<and>
   numeric_claim (GenerateToken jwt0 claims0 (t0 + 500000000)) ''exp'' = Some 1793750400"
proof -
  have h: "expiresIn jwt0 mod Second = 0"
    by (simp add: jwt0_def NewJWTManager_def config0_def time_defs)
  have u: "Unix (t0 + 500000000) = 1793664000"
    by (simp add: t0_def time_defs)
  have e: "expiresIn jwt0 div Second = 86400"
    by (simp add: jwt0_def NewJWTManager_def config0_def time_defs)
  note w = token_expiry_windows [of jwt0 "''user123''" "t0 + 500000000" Second claims0]
  from w h have "numeric_claim (GenerateToken jwt0 claims0 (t0 + 500000000)) ''exp'' =
      Some (Unix (t0 + 500000000) + expiresIn jwt0 div Second)"
    by blast
  then have x: "numeric_claim (GenerateToken jwt0 claims0 (t0 + 500000000)) ''exp'' = Some 1793750400"
    by (simp add: u e)
  from w have y: "numeric_claim (GenerateRefreshToken jwt0 ''user123'' (t0 + 500000000)) ''exp'' =
      Some 1796256000"
    by (simp add: u)
  from w u x y h show ?thesis by metis
qed

section \<open>Properties of the OAuth exchange engine\<close>

lemma MemoryStore_fields:
  "Set MemoryStore = MemorySessionStore_Set"
  "Get_OAuthState MemoryStore = (\<lambda>key. MemorySessionStore_Get key Unmarshal_OAuthState)"
  "Get_SessionData MemoryStore = (\<lambda>key. MemorySessionStore_Get key Unmarshal_SessionData)"
  "Delete MemoryStore = MemorySessionStore_Delete"
  "Exists MemoryStore = MemorySessionStore_Exists"
  by (simp_all add: MemoryStore_def)

lemma UndeletingStore_fields:
  "Set UndeletingStore = MemorySessionStore_Set"
  "Get_OAuthState UndeletingStore = (\<lambda>key. MemorySessionStore_Get key Unmarshal_OAuthState)"
  "Get_SessionData UndeletingStore = (\<lambda>key. MemorySessionStore_Get key Unmarshal_SessionData)"
  "Delete UndeletingStore = (\<lambda>keys m. (Some (Error ''connection reset by peer''), m))"
  "Exists UndeletingStore = MemorySessionStore_Exists"
  by (simp_all add: UndeletingStore_def)

lemma validateState_absent:
  assumes "sessionStore o' = MemoryStore" and "m (statePrefix o' @ '':'' @ state) = None"
  shows "validateState o' state now_get now_check m = (Inl (Error ''state not found or expired''), m)"
  using assms by (simp add: validateState_def MemoryStore_fields MemorySessionStore_Get_def)

lemma validateState_entry_expired:
  assumes "sessionStore o' = MemoryStore" and "m (statePrefix o' @ '':'' @ state) = Some item"
    and "After now_get (expiresAt item)"
  shows "validateState o' state now_get now_check m =
           (Inl (Error ''state not found or expired''), m(statePrefix o' @ '':'' @ state := None))"
  using assms by (simp add: validateState_def MemoryStore_fields MemorySessionStore_Get_def)

lemma validateState_live:
  assumes "sessionStore o' = MemoryStore" and "m (statePrefix o' @ '':'' @ state) = Some item"
    and "\<not> After now_get (expiresAt item)" and "Unmarshal_OAuthState (value item) = Inr st"
  shows "validateState o' state now_get now_check m =
           (if After now_check (OAuthState.ExpiresAt st) then Inl (Error ''state expired'')
            else Inr (RedirectURI st),
            m(statePrefix o' @ '':'' @ state := None))"
  using assms by (simp add: validateState_def MemoryStore_fields MemorySessionStore_Get_def)

lemma validateState_found_deleted:
  assumes "sessionStore o' = MemoryStore" and "m (statePrefix o' @ '':'' @ state) = Some item"
    and "Unmarshal_OAuthState (value item) = Inr st"
  shows "snd (validateState o' state now_get now_check m) = m(statePrefix o' @ '':'' @ state := None)"
  using assms
  by (cases "After now_get (expiresAt item)")
     (simp_all add: validateState_entry_expired validateState_live)

lemma validateState_success_deleted:
  assumes "sessionStore o' = MemoryStore"
    and "validateState o' state now_get now_check m = (Inr uri, m1)"
  shows "m1 (statePrefix o' @ '':'' @ state) = None"
proof (cases "m (statePrefix o' @ '':'' @ state)")
  case None
  then show ?thesis using assms by (simp add: validateState_absent)
next
  case (Some item)
  show ?thesis
  proof (cases "After now_get (expiresAt item)")
    case True
    then show ?thesis using assms Some by (simp add: validateState_entry_expired)
  next
    case False
    then show ?thesis using assms Some
      by (cases "Unmarshal_OAuthState (value item)")
         (auto simp add: validateState_def MemoryStore_fields MemorySessionStore_Get_def Let_def
           split: if_splits)
  qed
qed

lemma ValidateCallback_store:
  "snd (ValidateCallback o' cb provider state code now_get now_check m) =
   snd (validateState o' state now_get now_check m)"
  by (simp add: ValidateCallback_def split: prod.splits sum.splits)

lemma ValidateCallback_absent:
  assumes "sessionStore o' = MemoryStore" and "m (statePrefix o' @ '':'' @ state) = None"
  shows "ValidateCallback o' cb provider state code now_get now_check m =
           ((None, [], Some (Error ''invalid state: state not found or expired'')), m)"
  using assms by (simp add: ValidateCallback_def validateState_absent)

lemma ValidateCallback_success_validateState:
  assumes "snd (snd (fst (ValidateCallback o' cb provider state code now_get now_check m))) = None"
  shows "\<exists>uri m1. validateState o' state now_get now_check m = (Inr uri, m1)"
  using assms
  by (cases "validateState o' state now_get now_check m")
     (auto simp add: ValidateCallback_def split: sum.splits)

lemma state0_read:
  "\<lparr>State = coerceUTF8 (State state0), RedirectURI = coerceUTF8 (RedirectURI state0),
    OAuthState.ExpiresAt = OAuthState.ExpiresAt state0\<rparr> = state0"
  by (simp add: state0_def string_eval)


text \<open>
  On the in-memory store, whose \<open>Delete\<close> never fails, a state value is validated at
  most once. A \<open>ValidateCallback\<close> that finds a record under the state value leaves the
  store without that record, whatever the instants (the entry or the record may have
  expired), the provider and the provider's answer; a second \<open>ValidateCallback\<close> with
  the same state value then fails with the not-found error and changes nothing. Hence
  when a \<open>ValidateCallback\<close> returns no error, the next one with the same state value
  fails with the not-found error.
\<close>

lemma ValidateCallback_once_in_memory:
  assumes "sessionStore o' = MemoryStore"
  shows "(m (statePrefix o' @ '':'' @ state) = Some item \<and>
          Unmarshal_OAuthState (value item) = Inr st \<longrightarrow>
            snd (ValidateCallback o' cb provider state code now_get now_check m) =
              m(statePrefix o' @ '':'' @ state := None) \<and>
            ValidateCallback o' cb2 provider2 state code2 now_get2 now_check2
              (m(statePrefix o' @ '':'' @ state := None)) =
              ((None, [], Some (Error ''invalid state: state not found or expired'')),
               m(statePrefix o' @ '':'' @ state := None))) \<and>
         (snd (snd (fst (ValidateCallback o' cb provider state code now_get now_check m))) = None \<longrightarrow>
            fst (ValidateCallback o' cb2 provider2 state code2 now_get2 now_check2
                   (snd (ValidateCallback o' cb provider state code now_get now_check m))) =
              (None, [], Some (Error ''invalid state: state not found or expired'')))"
proof (intro conjI impI)
  assume "m (statePrefix o' @ '':'' @ state) = Some item \<and>
    Unmarshal_OAuthState (value item) = Inr st"
  then show "snd (ValidateCallback o' cb provider state code now_get now_check m) =
      m(statePrefix o' @ '':'' @ state := None)"
    using assms by (simp add: ValidateCallback_store validateState_found_deleted)
next
  show "ValidateCallback o' cb2 provider2 state code2 now_get2 now_check2
          (m(statePrefix o' @ '':'' @ state := None)) =
        ((None, [], Some (Error ''invalid state: state not found or expired'')),
         m(statePrefix o' @ '':'' @ state := None))"
    using assms by (simp add: ValidateCallback_absent)
next
  assume ok: "snd (snd (fst (ValidateCallback o' cb provider state code now_get now_check m))) = None"
  from ValidateCallback_success_validateState [OF ok]
  obtain uri m1 where v: "validateState o' state now_get now_check m = (Inr uri, m1)"
    by (elim exE)
  have "m1 (statePrefix o' @ '':'' @ state) = None"
    using assms v by (rule validateState_success_deleted)
  moreover have "snd (ValidateCallback o' cb provider state code now_get now_check m) = m1"
    using v by (simp add: ValidateCallback_store)
  ultimately show "fst (ValidateCallback o' cb2 provider2 state code2 now_get2 now_check2
        (snd (ValidateCallback o' cb provider state code now_get now_check m))) =
      (None, [], Some (Error ''invalid state: state not found or expired''))"
    using assms by (simp add: ValidateCallback_absent)
qed

text \<open>
  Claim C2. The claim says that \<open>ValidateCallback\<close> succeeds at most once for a state
  value, because the first lookup that finds the record deletes it. \<open>validateState\<close>
  calls the store's \<open>Delete\<close> to delete the used state and drops the error it returns,
  where \<open>InvalidateSession\<close> returns it. So for every store, in a state \<open>s\<close> where
  \<open>Get\<close> answers with the record and leaves \<open>s\<close> as it is while \<open>Delete\<close> fails
  and leaves \<open>s\<close> as it is (a networked store whose connection drops after the
  \<open>Get\<close>), a \<open>ValidateCallback\<close> before the record's expiry returns what
  the provider's handler returns with the record's redirect address and leaves the
  store in the state \<open>s\<close>, and so does the next \<open>ValidateCallback\<close> with the same
  state value. With a provider that accepts both codes, the same state value is
  validated twice.
\<close>

theorem ValidateCallback_twice_when_Delete_fails:
  assumes "Get_OAuthState (sessionStore o') (statePrefix o' @ '':'' @ state) now_get s = (Inr st, s)"
    and "Get_OAuthState (sessionStore o') (statePrefix o' @ '':'' @ state) now_get2 s = (Inr st, s)"
    and "Delete (sessionStore o') [statePrefix o' @ '':'' @ state] s = (Some err, s)"
    and "\<not> After now_check (OAuthState.ExpiresAt st)"
    and "\<not> After now_check2 (OAuthState.ExpiresAt st)"
  shows "ValidateCallback o' cb ProviderGitHub state code now_get now_check s =
           (with_redirect (handleGitHubCallback cb code) (RedirectURI st), s) \<and>
         ValidateCallback o' cb2 ProviderGitHub state code2 now_get2 now_check2
             (snd (ValidateCallback o' cb ProviderGitHub state code now_get now_check s)) =
           (with_redirect (handleGitHubCallback cb2 code2) (RedirectURI st), s) \<and>
         ValidateCallback o' cb ProviderGoogle state code now_get now_check s =
           (with_redirect (handleGoogleCallback cb code) (RedirectURI st), s) \<and>
         ValidateCallback o' cb2 ProviderGoogle state code2 now_get2 now_check2
             (snd (ValidateCallback o' cb ProviderGoogle state code now_get now_check s)) =
           (with_redirect (handleGoogleCallback cb2 code2) (RedirectURI st), s)"
proof -
  have first: "validateState o' state now_get now_check s = (Inr (RedirectURI st), s)"
    using assms(1,3,4) by (simp add: validateState_def)
  have second: "validateState o' state now_get2 now_check2 s = (Inr (RedirectURI st), s)"
    using assms(2,3,5) by (simp add: validateState_def)
  show ?thesis
    using first second
    by (simp add: ValidateCallback_def ProviderGoogle_def ProviderGitHub_def)
qed

theorem ValidateCallback_twice_when_Delete_fails_witness:
  "Get_OAuthState (sessionStore oauth_undeleting) (statePrefix oauth_undeleting @ '':'' @ ''good'')
       (t0 + Minute) store0 = (Inr state0, store0) \<and>
   Get_OAuthState (sessionStore oauth_undeleting) (statePrefix oauth_undeleting @ '':'' @ ''good'')
       (t0 + 2 * Minute) store0 = (Inr state0, store0) \<and>
   Delete (sessionStore oauth_undeleting) [statePrefix oauth_undeleting @ '':'' @ ''good''] store0 =
     (Some (Error ''connection reset by peer''), store0) \<and>
   \<not> After (t0 + Minute) (OAuthState.ExpiresAt state0) \<and>
   \<not> After (t0 + 2 * Minute) (OAuthState.ExpiresAt state0) \<and>
   ValidateCallback oauth_undeleting callbacks_ok ProviderGitHub ''good'' ''c1''
       (t0 + Minute) (t0 + Minute) store0 =
     ((Some info0, ''http://localhost:3000/done'', None), store0) \<and>
   ValidateCallback oauth_undeleting callbacks_ok ProviderGitHub ''good'' ''c2''
       (t0 + 2 * Minute) (t0 + 2 * Minute)
       (snd (ValidateCallback oauth_undeleting callbacks_ok ProviderGitHub ''good'' ''c1''
               (t0 + Minute) (t0 + Minute) store0)) =
     ((Some info0, ''http://localhost:3000/done'', None), store0)"
proof -
  have get1: "Get_OAuthState (sessionStore oauth_undeleting)
      (statePrefix oauth_undeleting @ '':'' @ ''good'') (t0 + Minute) store0 = (Inr state0, store0)"
    by (simp add: oauth_undeleting_def NewOAuthManager_def UndeletingStore_fields
        MemorySessionStore_Get_def store0_def state0_read After_def time_defs)
  have get2: "Get_OAuthState (sessionStore oauth_undeleting)
      (statePrefix oauth_undeleting @ '':'' @ ''good'') (t0 + 2 * Minute) store0 =
      (Inr state0, store0)"
    by (simp add: oauth_undeleting_def NewOAuthManager_def UndeletingStore_fields
        MemorySessionStore_Get_def store0_def state0_read After_def time_defs)
  have del: "Delete (sessionStore oauth_undeleting)
      [statePrefix oauth_undeleting @ '':'' @ ''good''] store0 =
      (Some (Error ''connection reset by peer''), store0)"
    by (simp add: oauth_undeleting_def NewOAuthManager_def UndeletingStore_fields)
  have live: "\<not> After (t0 + Minute) (OAuthState.ExpiresAt state0)"
    "\<not> After (t0 + 2 * Minute) (OAuthState.ExpiresAt state0)"
    by (simp_all add: state0_def After_def time_defs)
  have cb: "with_redirect (handleGitHubCallback callbacks_ok ''c1'') (RedirectURI state0) =
      (Some info0, ''http://localhost:3000/done'', None)"
    "with_redirect (handleGitHubCallback callbacks_ok ''c2'') (RedirectURI state0) =
      (Some info0, ''http://localhost:3000/done'', None)"
    by (simp_all add: callbacks_ok_def state0_def)
  note w = ValidateCallback_twice_when_Delete_fails [where o' = oauth_undeleting and s = store0
      and state = "''good''" and st = state0 and err = "Error ''connection reset by peer''"
      and now_get = "t0 + Minute" and now_check = "t0 + Minute"
      and ?now_get2.0 = "t0 + 2 * Minute" and ?now_check2.0 = "t0 + 2 * Minute"
      and cb = callbacks_ok and code = "''c1''" and ?cb2.0 = callbacks_ok and ?code2.0 = "''c2''",
      OF get1 get2 del live]
  from w have "ValidateCallback oauth_undeleting callbacks_ok ProviderGitHub ''good'' ''c1''
       (t0 + Minute) (t0 + Minute) store0 =
     (with_redirect (handleGitHubCallback callbacks_ok ''c1'') (RedirectURI state0), store0)"
    by (rule conjunct1)
  then have first: "ValidateCallback oauth_undeleting callbacks_ok ProviderGitHub ''good'' ''c1''
       (t0 + Minute) (t0 + Minute) store0 =
     ((Some info0, ''http://localhost:3000/done'', None), store0)"
    by (simp only: cb)
  from w have "ValidateCallback oauth_undeleting callbacks_ok ProviderGitHub ''good'' ''c2''
       (t0 + 2 * Minute) (t0 + 2 * Minute)
       (snd (ValidateCallback oauth_undeleting callbacks_ok ProviderGitHub ''good'' ''c1''
               (t0 + Minute) (t0 + Minute) store0)) =
     (with_redirect (handleGitHubCallback callbacks_ok ''c2'') (RedirectURI state0), store0)"
    by blast
  then have second: "ValidateCallback oauth_undeleting callbacks_ok ProviderGitHub ''good'' ''c2''
       (t0 + 2 * Minute) (t0 + 2 * Minute)
       (snd (ValidateCallback oauth_undeleting callbacks_ok ProviderGitHub ''good'' ''c1''
               (t0 + Minute) (t0 + Minute) store0)) =
     ((Some info0, ''http://localhost:3000/done'', None), store0)"
    by (simp only: cb)
  from get1 get2 del live first second show ?thesis by blast
qed

text \<open>
  Claim C7. On the in-memory store, \<open>ValidateCallback\<close> with a state value that has no
  record fails with the not-found error and returns the store as it was. So a pending
  record under another state value, whose entry and own expiry have not passed, is
  validated right after: \<open>validateState\<close> returns its redirect address, and
  \<open>ValidateCallback\<close> returns what the provider's handler returns, with that address.
  The record \<open>st\<close> is what the stored JSON text reads as.
\<close>

theorem ValidateCallback_unknown_state:
  assumes "sessionStore o' = MemoryStore"
    and "m (statePrefix o' @ '':'' @ state) = None"
  shows "ValidateCallback o' cb provider state code now_get now_check m =
           ((None, [], Some (Error ''invalid state: state not found or expired'')), m) \<and>
         (m (statePrefix o' @ '':'' @ state2) = Some item \<and>
          Unmarshal_OAuthState (value item) = Inr st \<and>
          \<not> After now_get2 (expiresAt item) \<and> \<not> After now_check2 (OAuthState.ExpiresAt st) \<longrightarrow>
            validateState o' state2 now_get2 now_check2
                (snd (ValidateCallback o' cb provider state code now_get now_check m)) =
              (Inr (RedirectURI st), m(statePrefix o' @ '':'' @ state2 := None)) \<and>
            ValidateCallback o' cb2 ProviderGoogle state2 code2 now_get2 now_check2
                (snd (ValidateCallback o' cb provider state code now_get now_check m)) =
              (with_redirect (handleGoogleCallback cb2 code2) (RedirectURI st),
               m(statePrefix o' @ '':'' @ state2 := None)) \<and>
            ValidateCallback o' cb2 ProviderGitHub state2 code2 now_get2 now_check2
                (snd (ValidateCallback o' cb provider state code now_get now_check m)) =
              (with_redirect (handleGitHubCallback cb2 code2) (RedirectURI st),
               m(statePrefix o' @ '':'' @ state2 := None)))"
proof -
  have unchanged: "ValidateCallback o' cb provider state code now_get now_check m =
      ((None, [], Some (Error ''invalid state: state not found or expired'')), m)"
    using assms by (rule ValidateCallback_absent)
  have later: "validateState o' state2 now_get2 now_check2 m =
      (Inr (RedirectURI st), m(statePrefix o' @ '':'' @ state2 := None))"
    if "m (statePrefix o' @ '':'' @ state2) = Some item"
      and "Unmarshal_OAuthState (value item) = Inr st"
      and "\<not> After now_get2 (expiresAt item)" and "\<not> After now_check2 (OAuthState.ExpiresAt st)"
    using assms(1) that by (simp add: validateState_live)
  show ?thesis
    unfolding unchanged
    using later
    by (simp add: ValidateCallback_def ProviderGoogle_def ProviderGitHub_def)
qed

theorem ValidateCallback_unknown_state_witness:
  "sessionStore oauth0 = MemoryStore \<and>
   store0 (statePrefix oauth0 @ '':'' @ ''wrong'') = None \<and>
   ValidateCallback oauth0 callbacks_ok ProviderGitHub ''wrong'' ''c1'' (t0 + Minute) (t0 + Minute) store0 =
     ((None, [], Some (Error ''invalid state: state not found or expired'')), store0) \<and>
   ValidateCallback oauth0 callbacks_ok ProviderGitHub ''good'' ''c1'' (t0 + Minute) (t0 + Minute)
       (snd (ValidateCallback oauth0 callbacks_ok ProviderGitHub ''wrong'' ''c1''
               (t0 + Minute) (t0 + Minute) store0)) =
     ((Some info0, ''http://localhost:3000/done'', None),
      store0(statePrefix oauth0 @ '':'' @ ''good'' := None))"
proof -
  have st: "sessionStore oauth0 = MemoryStore"
    by (simp add: oauth0_def NewOAuthManager_def)
  have absent: "store0 (statePrefix oauth0 @ '':'' @ ''wrong'') = None"
    by (simp add: oauth0_def NewOAuthManager_def store0_def)
  have pending: "store0 (statePrefix oauth0 @ '':'' @ ''good'') =
      Some \<lparr>value = JSON_OAuthState state0, expiresAt = t0 + 1000000 + 10 * Minute\<rparr> \<and>
    Unmarshal_OAuthState
      (value \<lparr>value = JSON_OAuthState state0, expiresAt = t0 + 1000000 + 10 * Minute\<rparr>) =
      Inr state0 \<and>
    \<not> After (t0 + Minute)
        (expiresAt \<lparr>value = JSON_OAuthState state0, expiresAt = t0 + 1000000 + 10 * Minute\<rparr>) \<and>
    \<not> After (t0 + Minute) (OAuthState.ExpiresAt state0)"
    by (simp add: oauth0_def NewOAuthManager_def store0_def state0_read)
       (simp add: state0_def After_def time_defs)
  have cb: "with_redirect (handleGitHubCallback callbacks_ok ''c1'') (RedirectURI state0) =
      (Some info0, ''http://localhost:3000/done'', None)"
    by (simp add: callbacks_ok_def state0_def)
  note w = ValidateCallback_unknown_state [where o' = oauth0 and m = store0 and state = "''wrong''"
      and cb = callbacks_ok and provider = ProviderGitHub and code = "''c1''"
      and now_get = "t0 + Minute" and now_check = "t0 + Minute" and ?state2.0 = "''good''"
      and item = "\<lparr>value = JSON_OAuthState state0, expiresAt = t0 + 1000000 + 10 * Minute\<rparr>"
      and st = state0 and ?now_get2.0 = "t0 + Minute" and ?now_check2.0 = "t0 + Minute"
      and ?cb2.0 = callbacks_ok and ?code2.0 = "''c1''", OF st absent]
  from w have first: "ValidateCallback oauth0 callbacks_ok ProviderGitHub ''wrong'' ''c1''
      (t0 + Minute) (t0 + Minute) store0 =
     ((None, [], Some (Error ''invalid state: state not found or expired'')), store0)"
    by (rule conjunct1)
  from w pending have "ValidateCallback oauth0 callbacks_ok ProviderGitHub ''good'' ''c1''
       (t0 + Minute) (t0 + Minute)
       (snd (ValidateCallback oauth0 callbacks_ok ProviderGitHub ''wrong'' ''c1''
               (t0 + Minute) (t0 + Minute) store0)) =
     (with_redirect (handleGitHubCallback callbacks_ok ''c1'') (RedirectURI state0),
      store0(statePrefix oauth0 @ '':'' @ ''good'' := None))"
    by blast
  with cb have second: "ValidateCallback oauth0 callbacks_ok ProviderGitHub ''good'' ''c1''
       (t0 + Minute) (t0 + Minute)
       (snd (ValidateCallback oauth0 callbacks_ok ProviderGitHub ''wrong'' ''c1''
               (t0 + Minute) (t0 + Minute) store0)) =
     ((Some info0, ''http://localhost:3000/done'', None),
      store0(statePrefix oauth0 @ '':'' @ ''good'' := None))"
    by simp
  from st absent first second show ?thesis by blast
qed

text \<open>
  Claim C10. \<open>GetAuthURL\<close> on the in-memory store writes the new record before it looks
  at the provider: when the provider is neither Google nor GitHub, or is one of them
  with an empty client id, the call returns the provider error and the store it returns
  holds the new pending record under the namespaced key, as its JSON text has it (the
  state value and the redirect address themselves when they are valid UTF-8).
\<close>

theorem GetAuthURL_error_after_store:
  assumes "sessionStore o' = MemoryStore"
    and "provider \<noteq> ProviderGoogle \<and> provider \<noteq> ProviderGitHub \<or>
         provider = ProviderGoogle \<and> GoogleClientID (OAuthManager.config o') = [] \<or>
         provider = ProviderGitHub \<and> GitHubClientID (OAuthManager.config o') = []"
  shows "GetAuthURL o' provider redirectURI state now_state now_set m =
           (Inl (if provider = ProviderGoogle then Error ''Google OAuth not configured''
                 else if provider = ProviderGitHub then Error ''GitHub OAuth not configured''
                 else Error (''unsupported provider: '' @ provider)),
            m(statePrefix o' @ '':'' @ state \<mapsto>
                \<lparr>value = JSON_OAuthState
                           \<lparr>State = coerceUTF8 state, RedirectURI = coerceUTF8 redirectURI,
                            OAuthState.ExpiresAt =
                              Add now_state (OAuthStateExpiration (OAuthManager.config o'))\<rparr>,
                 expiresAt = Add now_set (OAuthStateExpiration (OAuthManager.config o'))\<rparr>)) \<and>
         (ValidString state \<and> ValidString redirectURI \<longrightarrow>
            snd (GetAuthURL o' provider redirectURI state now_state now_set m) =
              m(statePrefix o' @ '':'' @ state \<mapsto>
                  \<lparr>value = JSON_OAuthState
                             \<lparr>State = state, RedirectURI = redirectURI,
                              OAuthState.ExpiresAt =
                                Add now_state (OAuthStateExpiration (OAuthManager.config o'))\<rparr>,
                   expiresAt = Add now_set (OAuthStateExpiration (OAuthManager.config o'))\<rparr>))"
  using assms
  by (auto simp add: GetAuthURL_def MemoryStore_fields MemorySessionStore_Set_def
      getGoogleAuthURL_def getGitHubAuthURL_def Let_def ProviderGoogle_def ProviderGitHub_def
      ValidString_coerceUTF8)

theorem GetAuthURL_error_after_store_witness:
  "sessionStore oauth0 = MemoryStore \<and>
   GoogleClientID (OAuthManager.config oauth0) = [] \<and>
   GetAuthURL oauth0 ProviderGoogle ''http://localhost:3000/done'' ''fresh'' t0 (t0 + 1000000)
       Map.empty =
     (Inl (Error ''Google OAuth not configured''),
      [''oauth:state:fresh'' \<mapsto>
         \<lparr>value = JSON_OAuthState
                    \<lparr>State = ''fresh'', RedirectURI = ''http://localhost:3000/done'',
                     OAuthState.ExpiresAt = t0 + 10 * Minute\<rparr>,
          expiresAt = t0 + 1000000 + 10 * Minute\<rparr>]) \<and>
   ''facebook'' \<noteq> ProviderGoogle \<and> ''facebook'' \<noteq> ProviderGitHub \<and>
   GetAuthURL oauth0 ''facebook'' ''http://localhost:3000/done'' ''fresh'' t0 (t0 + 1000000)
       Map.empty =
     (Inl (Error ''unsupported provider: facebook''),
      [''oauth:state:fresh'' \<mapsto>
         \<lparr>value = JSON_OAuthState
                    \<lparr>State = ''fresh'', RedirectURI = ''http://localhost:3000/done'',
                     OAuthState.ExpiresAt = t0 + 10 * Minute\<rparr>,
          expiresAt = t0 + 1000000 + 10 * Minute\<rparr>])"
proof -
  have st: "sessionStore oauth0 = MemoryStore"
    by (simp add: oauth0_def NewOAuthManager_def)
  have g: "GoogleClientID (OAuthManager.config oauth0) = []"
    by (simp add: oauth0_def NewOAuthManager_def config0_def)
  have f: "''facebook'' \<noteq> ProviderGoogle \<and> ''facebook'' \<noteq> ProviderGitHub"
    by (simp add: ProviderGoogle_def ProviderGitHub_def)
  have c: "statePrefix oauth0 = ''oauth:state'' \<and>
      OAuthStateExpiration (OAuthManager.config oauth0) = 10 * Minute"
    by (simp add: oauth0_def NewOAuthManager_def config0_def)
  have s: "coerceUTF8 ''fresh'' = ''fresh'' \<and>
      coerceUTF8 ''http://localhost:3000/done'' = ''http://localhost:3000/done''"
    by (simp add: string_eval)
  from g have h1: "ProviderGoogle \<noteq> ProviderGoogle \<and> ProviderGoogle \<noteq> ProviderGitHub \<or>
         ProviderGoogle = ProviderGoogle \<and> GoogleClientID (OAuthManager.config oauth0) = [] \<or>
         ProviderGoogle = ProviderGitHub \<and> GitHubClientID (OAuthManager.config oauth0) = []"
    by simp
  from f have h2: "''facebook'' \<noteq> ProviderGoogle \<and> ''facebook'' \<noteq> ProviderGitHub \<or>
         ''facebook'' = ProviderGoogle \<and> GoogleClientID (OAuthManager.config oauth0) = [] \<or>
         ''facebook'' = ProviderGitHub \<and> GitHubClientID (OAuthManager.config oauth0) = []"
    by simp
  note w1 = GetAuthURL_error_after_store [OF st h1, of "''http://localhost:3000/done''" "''fresh''"
      t0 "t0 + 1000000" Map.empty, THEN conjunct1]
  note w2 = GetAuthURL_error_after_store [OF st h2, of "''http://localhost:3000/done''" "''fresh''"
      t0 "t0 + 1000000" Map.empty, THEN conjunct1]
  from w1 c s have r1: "GetAuthURL oauth0 ProviderGoogle ''http://localhost:3000/done'' ''fresh'' t0
      (t0 + 1000000) Map.empty =
     (Inl (Error ''Google OAuth not configured''),
      [''oauth:state:fresh'' \<mapsto>
         \<lparr>value = JSON_OAuthState
                    \<lparr>State = ''fresh'', RedirectURI = ''http://localhost:3000/done'',
                     OAuthState.ExpiresAt = t0 + 10 * Minute\<rparr>,
          expiresAt = t0 + 1000000 + 10 * Minute\<rparr>])"
    by (simp add: Add_def)
  from w2 c s f have r2: "GetAuthURL oauth0 ''facebook'' ''http://localhost:3000/done'' ''fresh'' t0
      (t0 + 1000000) Map.empty =
     (Inl (Error ''unsupported provider: facebook''),
      [''oauth:state:fresh'' \<mapsto>
         \<lparr>value = JSON_OAuthState
                    \<lparr>State = ''fresh'', RedirectURI = ''http://localhost:3000/done'',
                     OAuthState.ExpiresAt = t0 + 10 * Minute\<rparr>,
          expiresAt = t0 + 1000000 + 10 * Minute\<rparr>])"
    by (simp add: Add_def)
  from st g f r1 r2 show ?thesis by blast
qed

section \<open>Properties of the session tracker\<close>

lemma GetSession_absent:
  assumes "store sm = MemoryStore" and "m (prefix sm @ '':'' @ sessionID) = None"
  shows "GetSession sm sessionID now_get now_check m =
           (Inl (Error ''session not found: key not found''), m)"
  using assms by (simp add: GetSession_def MemoryStore_fields MemorySessionStore_Get_def)

lemma GetSession_entry_expired:
  assumes "store sm = MemoryStore" and "m (prefix sm @ '':'' @ sessionID) = Some item"
    and "After now_get (expiresAt item)"
  shows "GetSession sm sessionID now_get now_check m =
           (Inl (Error ''session not found: key expired''), m(prefix sm @ '':'' @ sessionID := None))"
  using assms by (simp add: GetSession_def MemoryStore_fields MemorySessionStore_Get_def)

lemma GetSession_live:
  assumes "store sm = MemoryStore" and "m (prefix sm @ '':'' @ sessionID) = Some item"
    and "\<not> After now_get (expiresAt item)" and "Unmarshal_SessionData (value item) = Inr d"
  shows "GetSession sm sessionID now_get now_check m =
           (if After now_check (SessionData.ExpiresAt d)
            then (Inl (Error ''session expired''), m(prefix sm @ '':'' @ sessionID := None))
            else (Inr d, m))"
  using assms by (simp add: GetSession_def MemoryStore_fields MemorySessionStore_Get_def)

lemma session0_read:
  "\<lparr>SessionData.UserID = coerceUTF8 (SessionData.UserID session0),
    SessionData.Email = coerceUTF8 (SessionData.Email session0),
    SessionData.CreatedAt = SessionData.CreatedAt session0,
    SessionData.ExpiresAt = SessionData.ExpiresAt session0\<rparr> = session0"
  by (simp add: session0_def string_eval)

lemmas session_eval =
  GetSession_def MemoryStore_fields MemorySessionStore_Get_def After_def Let_def
  sessions0_def NewSessionManager_def store0_def session0_read

text \<open>
  Claim C6, as the code has it. When the entry of a session is still in the map of the
  in-memory store, the stored text reads as a \<open>SessionData\<close>, and the \<open>ExpiresAt\<close>
  of that \<open>SessionData\<close> has passed, \<open>GetSession\<close> fails and returns the store
  without the entry, and a later \<open>GetSession\<close> for the same id fails with the not-found
  error \<open>session not found: key not found\<close>. The error of the first call is
  \<open>session not found: key expired\<close> when the store's own expiry of the entry has
  passed at the lookup, and \<open>session expired\<close> when it has not.
\<close>

theorem GetSession_record_expired:
  assumes "store sm = MemoryStore"
    and "m (prefix sm @ '':'' @ sessionID) = Some item"
    and "Unmarshal_SessionData (value item) = Inr d"
    and "After now_check (SessionData.ExpiresAt d)"
  shows "GetSession sm sessionID now_get now_check m =
           (Inl (Error (if After now_get (expiresAt item)
                        then ''session not found: key expired'' else ''session expired'')),
            m(prefix sm @ '':'' @ sessionID := None)) \<and>
         GetSession sm sessionID now_get2 now_check2 (m(prefix sm @ '':'' @ sessionID := None)) =
           (Inl (Error ''session not found: key not found''),
            m(prefix sm @ '':'' @ sessionID := None))"
  using assms
  by (cases "After now_get (expiresAt item)")
     (simp_all add: GetSession_entry_expired GetSession_live GetSession_absent)

theorem GetSession_record_expired_witness:
  "store sessions0 = MemoryStore \<and>
   store0 (prefix sessions0 @ '':'' @ ''sid'') =
     Some \<lparr>value = JSON_SessionData session0, expiresAt = t0 + 1000000 + Hour\<rparr> \<and>
   Unmarshal_SessionData (JSON_SessionData session0) = Inr session0 \<and>
   After (t0 + Hour + 500000) (SessionData.ExpiresAt session0) \<and>
   After (t0 + Hour + 30 * Second) (SessionData.ExpiresAt session0) \<and>
   GetSession sessions0 ''sid'' (t0 + Hour + 500000) (t0 + Hour + 500000) store0 =
     (Inl (Error ''session expired''), store0(''session:sid'' := None)) \<and>
   GetSession sessions0 ''sid'' (t0 + Hour + 30 * Second) (t0 + Hour + 30 * Second) store0 =
     (Inl (Error ''session not found: key expired''), store0(''session:sid'' := None)) \<and>
   GetSession sessions0 ''sid'' (t0 + Hour + 600000) (t0 + Hour + 600000)
       (store0(''session:sid'' := None)) =
     (Inl (Error ''session not found: key not found''), store0(''session:sid'' := None))"
proof -
  have st: "store sessions0 = MemoryStore"
    by (simp add: sessions0_def NewSessionManager_def)
  have key: "prefix sessions0 = ''session''"
    by (simp add: sessions0_def NewSessionManager_def)
  have found: "store0 (prefix sessions0 @ '':'' @ ''sid'') =
      Some \<lparr>value = JSON_SessionData session0, expiresAt = t0 + 1000000 + Hour\<rparr>"
    by (simp add: key store0_def)
  have dec: "Unmarshal_SessionData (JSON_SessionData session0) = Inr session0"
    by (simp add: session0_read)
  then have v: "Unmarshal_SessionData
      (value \<lparr>value = JSON_SessionData session0, expiresAt = t0 + 1000000 + Hour\<rparr>) =
      Inr session0"
    by (simp only: memoryItem.simps)
  have late: "After (t0 + Hour + 500000) (SessionData.ExpiresAt session0)"
    "After (t0 + Hour + 30 * Second) (SessionData.ExpiresAt session0)"
    by (simp_all add: After_def session0_def Second_def)
  have entry: "\<not> After (t0 + Hour + 500000)
      (expiresAt \<lparr>value = JSON_SessionData session0, expiresAt = t0 + 1000000 + Hour\<rparr>)"
    "After (t0 + Hour + 30 * Second)
      (expiresAt \<lparr>value = JSON_SessionData session0, expiresAt = t0 + 1000000 + Hour\<rparr>)"
    by (simp_all add: After_def Second_def)
  note w1 = GetSession_record_expired [where sm = sessions0 and m = store0
      and sessionID = "''sid''" and d = session0
      and item = "\<lparr>value = JSON_SessionData session0, expiresAt = t0 + 1000000 + Hour\<rparr>"
      and now_get = "t0 + Hour + 500000" and now_check = "t0 + Hour + 500000"
      and ?now_get2.0 = "t0 + Hour + 600000" and ?now_check2.0 = "t0 + Hour + 600000",
      OF st found v late(1)]
  note w2 = GetSession_record_expired [where sm = sessions0 and m = store0
      and sessionID = "''sid''" and d = session0
      and item = "\<lparr>value = JSON_SessionData session0, expiresAt = t0 + 1000000 + Hour\<rparr>"
      and now_get = "t0 + Hour + 30 * Second" and now_check = "t0 + Hour + 30 * Second"
      and ?now_get2.0 = "t0 + Hour + 600000" and ?now_check2.0 = "t0 + Hour + 600000",
      OF st found v late(2)]
  from w1 entry(1) have r1:
    "GetSession sessions0 ''sid'' (t0 + Hour + 500000) (t0 + Hour + 500000) store0 =
       (Inl (Error ''session expired''), store0(''session:sid'' := None))"
    by (simp add: key)
  from w2 entry(2) have r2:
    "GetSession sessions0 ''sid'' (t0 + Hour + 30 * Second) (t0 + Hour + 30 * Second) store0 =
       (Inl (Error ''session not found: key expired''), store0(''session:sid'' := None))"
    by (simp add: key)
  from w1 have r3:
    "GetSession sessions0 ''sid'' (t0 + Hour + 600000) (t0 + Hour + 600000)
         (store0(''session:sid'' := None)) =
       (Inl (Error ''session not found: key not found''), store0(''session:sid'' := None))"
    by (simp add: key)
  from st found dec late r1 r2 r3 show ?thesis by blast
qed

text \<open>
  Claim C6 says that the first of these calls fails as not-found. It does not when the
  store does not yet count the entry expired: for the session \<open>sid\<close> of \<open>store0\<close>,
  half a millisecond after the record's expiry, the error is \<open>session expired\<close>, and
  differs from the error for the same id once the entry is gone.
\<close>

theorem GetSession_expired_not_reported_as_not_found:
  "fst (GetSession sessions0 ''sid'' (t0 + Hour + 500000) (t0 + Hour + 500000) store0) =
     Inl (Error ''session expired'') \<and>
   fst (GetSession sessions0 ''sid'' (t0 + Hour + 500000) (t0 + Hour + 500000)
          (store0(''session:sid'' := None))) =
     Inl (Error ''session not found: key not found'') \<and>
   fst (GetSession sessions0 ''sid'' (t0 + Hour + 500000) (t0 + Hour + 500000) store0) \<noteq>
   fst (GetSession sessions0 ''sid'' (t0 + Hour + 500000) (t0 + Hour + 500000)
          (store0(''session:sid'' := None)))"
  by (simp add: session_eval) (simp add: session0_def)




section \<open>Properties of the auth orchestrator\<close>

lemmas auth_eval =
  service0_def service_refused_def NewAuthService_def NewSessionManager_def NewOAuthManager_def
  NewJWTManager_def ListUserStore_def bcrypt0_def users0_def by_email_def by_id_def
  RefusingStore_def

text \<open>
  Claim C5. Whatever the user store and the password check are: when the lookup of the
  first request's email fails, and the lookup of the second request's email finds a user
  whose stored hash the second request's password does not match, both \<open>SignIn\<close> calls
  return the same error, \<open>invalid credentials\<close>, and leave the session store as it was.
\<close>

theorem SignIn_failures_same_error:
  assumes "fst (GetUserByEmail (userStore a) (SignInRequest.Email req1) u) = Inl err1"
    and "fst (GetUserByEmail (userStore a) (SignInRequest.Email req2) u) = Inr (user, hashedPassword)"
    and "CompareHashAndPassword bc hashedPassword (SignInRequest.Password req2) = Some err2"
  shows "fst (SignIn a bc req1 d1 u s) = Inl (Error ''invalid credentials'') \<and>
         fst (SignIn a bc req2 d2 u s) = Inl (Error ''invalid credentials'') \<and>
         fst (SignIn a bc req1 d1 u s) = fst (SignIn a bc req2 d2 u s) \<and>
         snd (snd (SignIn a bc req1 d1 u s)) = s \<and>
         snd (snd (SignIn a bc req2 d2 u s)) = s"
proof -
  have 1: "fst (SignIn a bc req1 d1 u s) = Inl (Error ''invalid credentials'') \<and>
      snd (snd (SignIn a bc req1 d1 u s)) = s"
    using assms(1)
    by (cases "GetUserByEmail (userStore a) (SignInRequest.Email req1) u")
       (simp add: SignIn_def)
  have 2: "fst (SignIn a bc req2 d2 u s) = Inl (Error ''invalid credentials'') \<and>
      snd (snd (SignIn a bc req2 d2 u s)) = s"
    using assms(2,3)
    by (cases "GetUserByEmail (userStore a) (SignInRequest.Email req2) u")
       (simp add: SignIn_def)
  from 1 2 show ?thesis by simp
qed

theorem SignIn_failures_same_error_witness:
  "fst (GetUserByEmail (userStore service0) ''nobody@example.com'' users0) =
     Inl (Error ''user not found'') \<and>
   fst (GetUserByEmail (userStore service0) ''test@example.com'' users0) =
     Inr (user0, ''hashed:pw123456'') \<and>
   CompareHashAndPassword bcrypt0 ''hashed:pw123456'' ''wrong'' =
     Some (Error ''hashedPassword is not the hash of the given password'') \<and>
   fst (SignIn service0 bcrypt0
          \<lparr>SignInRequest.Email = ''nobody@example.com'', SignInRequest.Password = ''pw123456''\<rparr>
          draws0 users0 store0) = Inl (Error ''invalid credentials'') \<and>
   fst (SignIn service0 bcrypt0
          \<lparr>SignInRequest.Email = ''test@example.com'', SignInRequest.Password = ''wrong''\<rparr>
          draws0 users0 store0) = Inl (Error ''invalid credentials'')"
proof -
  have a: "fst (GetUserByEmail (userStore service0)
      (SignInRequest.Email \<lparr>SignInRequest.Email = ''nobody@example.com'',
         SignInRequest.Password = ''pw123456''\<rparr>) users0) = Inl (Error ''user not found'')"
    by (simp add: auth_eval user0_def)
  have b: "fst (GetUserByEmail (userStore service0)
      (SignInRequest.Email \<lparr>SignInRequest.Email = ''test@example.com'',
         SignInRequest.Password = ''wrong''\<rparr>) users0) = Inr (user0, ''hashed:pw123456'')"
    by (simp add: auth_eval user0_def)
  have c: "CompareHashAndPassword bcrypt0 ''hashed:pw123456''
      (SignInRequest.Password \<lparr>SignInRequest.Email = ''test@example.com'',
         SignInRequest.Password = ''wrong''\<rparr>) =
      Some (Error ''hashedPassword is not the hash of the given password'')"
    by (simp add: bcrypt0_def)
  note w = SignIn_failures_same_error [OF a b c, of draws0 store0 draws0]
  from w a b c show ?thesis by simp
qed

lemma generateAuthResponse_result:
  assumes "GenerateToken (jwtManager a) (claims_of user) (at_access d) = Inr accessToken"
    and "GenerateRefreshToken (jwtManager a) (User.ID user) (at_refresh d) = Inr refreshToken"
  shows "generateAuthResponse a user d s =
           (Inr (response_of a user accessToken refreshToken),
            snd (CreateSession (sessionManager a) (User.ID user) (User.Email user)
                   (JWTExpiration (AuthService.config a)) (session_id d)
                   (at_created d) (at_expires d) (at_set d) s))"
  using assms
  by (simp add: generateAuthResponse_def claims_of_def response_of_def split: prod.splits)

lemma SignUp_reaches_response:
  assumes "AllowSignup (AuthService.config a)"
    and "UserExists (userStore a) (SignUpRequest.Email req) u = (Inr False, u1)"
    and "GenerateFromPassword bc (SignUpRequest.Password req) (BCryptCost (AuthService.config a)) =
           Inr hashedPassword"
    and "user = \<lparr>User.ID = newID, User.Email = SignUpRequest.Email req,
                  User.Name = SignUpRequest.Name req, User.AvatarURL = [],
                  User.Provider = ProviderLocal, User.CreatedAt = now_c,
                  User.UpdatedAt = now_u\<rparr>"
    and "CreateUser (userStore a) user hashedPassword u1 = (None, u2)"
  shows "fst (SignUp a bc req newID now_c now_u d u s) = fst (generateAuthResponse a user d s)"
  using assms by (simp add: SignUp_def split: prod.splits)

lemma SignIn_reaches_response:
  assumes "GetUserByEmail (userStore a) (SignInRequest.Email req) u = (Inr (user, hashedPassword), u1)"
    and "CompareHashAndPassword bc hashedPassword (SignInRequest.Password req) = None"
  shows "fst (SignIn a bc req d u s) = fst (generateAuthResponse a user d s)"
  using assms by (simp add: SignIn_def split: prod.splits)

lemma OAuthSignIn_new_reaches_response:
  assumes "ValidateCallback (oauthManager a) cb provider state code now_get now_check s0 =
             ((Some oauthUser, redirectURI, None), s)"
    and "OAuthUserInfo.Email oauthUser \<noteq> []"
    and "GetUserByEmail (userStore a) (OAuthUserInfo.Email oauthUser) u = (Inl err, u1)"
    and "user = \<lparr>User.ID = provider @ ''_'' @ OAuthUserInfo.ID oauthUser,
                  User.Email = OAuthUserInfo.Email oauthUser,
                  User.Name = OAuthUserInfo.Name oauthUser,
                  User.AvatarURL = OAuthUserInfo.AvatarURL oauthUser,
                  User.Provider = OAuthUserInfo.Provider oauthUser,
                  User.CreatedAt = now_c, User.UpdatedAt = now_u\<rparr>"
    and "CreateUser (userStore a) user [] u1 = (None, u2)"
  shows "fst (OAuthSignIn a cb provider state code now_get now_check now_c now_u d u s0) =
           fst (generateAuthResponse a user d s)"
  using assms by (simp add: OAuthSignIn_def split: prod.splits)

lemma OAuthSignIn_known_reaches_response:
  assumes "ValidateCallback (oauthManager a) cb provider state code now_get now_check s0 =
             ((Some oauthUser, redirectURI, None), s)"
    and "OAuthUserInfo.Email oauthUser \<noteq> []"
    and "GetUserByEmail (userStore a) (OAuthUserInfo.Email oauthUser) u =
           (Inr (found, hashedPassword), u1)"
    and "user = found\<lparr>User.Name := OAuthUserInfo.Name oauthUser,
                       User.AvatarURL := OAuthUserInfo.AvatarURL oauthUser,
                       User.UpdatedAt := now_u\<rparr>"
  shows "fst (OAuthSignIn a cb provider state code now_get now_check now_c now_u d u s0) =
           fst (generateAuthResponse a user d s)"
  using assms by (simp add: OAuthSignIn_def Let_def split: prod.splits)

lemma RefreshToken_reaches_response:
  assumes "ValidateRefreshToken (jwtManager a) token now = Inr userID"
    and "GetUserByID (userStore a) userID u = (Inr user, u1)"
  shows "fst (RefreshToken' a token now d u s) = fst (generateAuthResponse a user d s)"
  using assms by (simp add: RefreshToken'_def split: prod.splits)

text \<open>
  Claim C9. Whatever the session store is, and so also when \<open>CreateSession\<close> returns
  an error: if the two tokens of a user are generated, \<open>generateAuthResponse\<close> returns
  the response with that user and both tokens, and the only trace of \<open>CreateSession\<close> is
  the store it leaves. Every path that reaches it returns that response: \<open>SignUp\<close>
  once the new user is created, \<open>SignIn\<close> once the password matches, \<open>OAuthSignIn\<close>
  once the callback is validated and the user created or found (whether or not the
  update of the found user is stored), and \<open>RefreshToken\<close> once the refresh token is
  validated and the user found.
\<close>

theorem session_failure_is_not_fatal:
  assumes "GenerateToken (jwtManager a) (claims_of user) (at_access d) = Inr accessToken"
    and "GenerateRefreshToken (jwtManager a) (User.ID user) (at_refresh d) = Inr refreshToken"
  shows "generateAuthResponse a user d s =
           (Inr (response_of a user accessToken refreshToken),
            snd (CreateSession (sessionManager a) (User.ID user) (User.Email user)
                   (JWTExpiration (AuthService.config a)) (session_id d)
                   (at_created d) (at_expires d) (at_set d) s)) \<and>
         (AllowSignup (AuthService.config a) \<and>
          UserExists (userStore a) (SignUpRequest.Email signUp) u = (Inr False, u1) \<and>
          GenerateFromPassword bc (SignUpRequest.Password signUp)
            (BCryptCost (AuthService.config a)) = Inr hashedPassword \<and>
          user = \<lparr>User.ID = newID, User.Email = SignUpRequest.Email signUp,
                  User.Name = SignUpRequest.Name signUp, User.AvatarURL = [],
                  User.Provider = ProviderLocal, User.CreatedAt = now_c,
                  User.UpdatedAt = now_u\<rparr> \<and>
          CreateUser (userStore a) user hashedPassword u1 = (None, u2) \<longrightarrow>
            fst (SignUp a bc signUp newID now_c now_u d u s) =
              Inr (response_of a user accessToken refreshToken)) \<and>
         (GetUserByEmail (userStore a) (SignInRequest.Email signIn) u =
            (Inr (user, hashedPassword), u1) \<and>
          CompareHashAndPassword bc hashedPassword (SignInRequest.Password signIn) = None \<longrightarrow>
            fst (SignIn a bc signIn d u s) = Inr (response_of a user accessToken refreshToken)) \<and>
         (ValidateCallback (oauthManager a) cb provider state code now_get now_check s0 =
            ((Some oauthUser, redirectURI, None), s) \<and>
          OAuthUserInfo.Email oauthUser \<noteq> [] \<and>
          GetUserByEmail (userStore a) (OAuthUserInfo.Email oauthUser) u = (Inl err, u1) \<and>
          user = \<lparr>User.ID = provider @ ''_'' @ OAuthUserInfo.ID oauthUser,
                  User.Email = OAuthUserInfo.Email oauthUser,
                  User.Name = OAuthUserInfo.Name oauthUser,
                  User.AvatarURL = OAuthUserInfo.AvatarURL oauthUser,
                  User.Provider = OAuthUserInfo.Provider oauthUser,
                  User.CreatedAt = now_c, User.UpdatedAt = now_u\<rparr> \<and>
          CreateUser (userStore a) user [] u1 = (None, u2) \<longrightarrow>
            fst (OAuthSignIn a cb provider state code now_get now_check now_c now_u d u s0) =
              Inr (response_of a user accessToken refreshToken)) \<and>
         (ValidateCallback (oauthManager a) cb provider state code now_get now_check s0 =
            ((Some oauthUser, redirectURI, None), s) \<and>
          OAuthUserInfo.Email oauthUser \<noteq> [] \<and>
          GetUserByEmail (userStore a) (OAuthUserInfo.Email oauthUser) u =
            (Inr (found, hashedPassword), u1) \<and>
          user = found\<lparr>User.Name := OAuthUserInfo.Name oauthUser,
                       User.AvatarURL := OAuthUserInfo.AvatarURL oauthUser,
                       User.UpdatedAt := now_u\<rparr> \<longrightarrow>
            fst (OAuthSignIn a cb provider state code now_get now_check now_c now_u d u s0) =
              Inr (response_of a user accessToken refreshToken)) \<and>
         (ValidateRefreshToken (jwtManager a) token now = Inr userID \<and>
          GetUserByID (userStore a) userID u = (Inr user, u1) \<longrightarrow>
            fst (RefreshToken' a token now d u s) =
              Inr (response_of a user accessToken refreshToken))"
proof -
  note r = generateAuthResponse_result [OF assms]
  have g: "fst (generateAuthResponse a user d s) = Inr (response_of a user accessToken refreshToken)"
    for s :: 'b
    by (simp add: r)
  show ?thesis
  proof (intro conjI impI)
    show "generateAuthResponse a user d s =
           (Inr (response_of a user accessToken refreshToken),
            snd (CreateSession (sessionManager a) (User.ID user) (User.Email user)
                   (JWTExpiration (AuthService.config a)) (session_id d)
                   (at_created d) (at_expires d) (at_set d) s))"
      by (rule r)
  next
    assume "AllowSignup (AuthService.config a) \<and>
          UserExists (userStore a) (SignUpRequest.Email signUp) u = (Inr False, u1) \<and>
          GenerateFromPassword bc (SignUpRequest.Password signUp)
            (BCryptCost (AuthService.config a)) = Inr hashedPassword \<and>
          user = \<lparr>User.ID = newID, User.Email = SignUpRequest.Email signUp,
                  User.Name = SignUpRequest.Name signUp, User.AvatarURL = [],
                  User.Provider = ProviderLocal, User.CreatedAt = now_c,
                  User.UpdatedAt = now_u\<rparr> \<and>
          CreateUser (userStore a) user hashedPassword u1 = (None, u2)"
    then have "fst (SignUp a bc signUp newID now_c now_u d u s) =
        fst (generateAuthResponse a user d s)"
      by (elim conjE) (rule SignUp_reaches_response; assumption)
    then show "fst (SignUp a bc signUp newID now_c now_u d u s) =
        Inr (response_of a user accessToken refreshToken)"
      by (simp add: g)
  next
    assume "GetUserByEmail (userStore a) (SignInRequest.Email signIn) u =
            (Inr (user, hashedPassword), u1) \<and>
          CompareHashAndPassword bc hashedPassword (SignInRequest.Password signIn) = None"
    then have "fst (SignIn a bc signIn d u s) = fst (generateAuthResponse a user d s)"
      by (elim conjE) (rule SignIn_reaches_response; assumption)
    then show "fst (SignIn a bc signIn d u s) = Inr (response_of a user accessToken refreshToken)"
      by (simp add: g)
  next
    assume "ValidateCallback (oauthManager a) cb provider state code now_get now_check s0 =
            ((Some oauthUser, redirectURI, None), s) \<and>
          OAuthUserInfo.Email oauthUser \<noteq> [] \<and>
          GetUserByEmail (userStore a) (OAuthUserInfo.Email oauthUser) u = (Inl err, u1) \<and>
          user = \<lparr>User.ID = provider @ ''_'' @ OAuthUserInfo.ID oauthUser,
                  User.Email = OAuthUserInfo.Email oauthUser,
                  User.Name = OAuthUserInfo.Name oauthUser,
                  User.AvatarURL = OAuthUserInfo.AvatarURL oauthUser,
                  User.Provider = OAuthUserInfo.Provider oauthUser,
                  User.CreatedAt = now_c, User.UpdatedAt = now_u\<rparr> \<and>
          CreateUser (userStore a) user [] u1 = (None, u2)"
    then have "fst (OAuthSignIn a cb provider state code now_get now_check now_c now_u d u s0) =
        fst (generateAuthResponse a user d s)"
      by (elim conjE) (rule OAuthSignIn_new_reaches_response; assumption)
    then show "fst (OAuthSignIn a cb provider state code now_get now_check now_c now_u d u s0) =
        Inr (response_of a user accessToken refreshToken)"
      by (simp add: g)
  next
    assume "ValidateCallback (oauthManager a) cb provider state code now_get now_check s0 =
            ((Some oauthUser, redirectURI, None), s) \<and>
          OAuthUserInfo.Email oauthUser \<noteq> [] \<and>
          GetUserByEmail (userStore a) (OAuthUserInfo.Email oauthUser) u =
            (Inr (found, hashedPassword), u1) \<and>
          user = found\<lparr>User.Name := OAuthUserInfo.Name oauthUser,
                       User.AvatarURL := OAuthUserInfo.AvatarURL oauthUser,
                       User.UpdatedAt := now_u\<rparr>"
    then have "fst (OAuthSignIn a cb provider state code now_get now_check now_c now_u d u s0) =
        fst (generateAuthResponse a user d s)"
      by (elim conjE) (rule OAuthSignIn_known_reaches_response; assumption)
    then show "fst (OAuthSignIn a cb provider state code now_get now_check now_c now_u d u s0) =
        Inr (response_of a user accessToken refreshToken)"
      by (simp add: g)
  next
    assume "ValidateRefreshToken (jwtManager a) token now = Inr userID \<and>
          GetUserByID (userStore a) userID u = (Inr user, u1)"
    then have "fst (RefreshToken' a token now d u s) = fst (generateAuthResponse a user d s)"
      by (elim conjE) (rule RefreshToken_reaches_response; assumption)
    then show "fst (RefreshToken' a token now d u s) =
        Inr (response_of a user accessToken refreshToken)"
      by (simp add: g)
  qed
qed

lemma GenerateToken_returns:
  "GenerateToken j claims now = Inr (projr (GenerateToken j claims now))"
  by (simp add: GenerateToken_def SignedString_def Let_def)

lemma GenerateRefreshToken_returns:
  "GenerateRefreshToken j userID now = Inr (projr (GenerateRefreshToken j userID now))"
  by (simp add: GenerateRefreshToken_def SignedString_def Let_def)

theorem session_failure_is_not_fatal_witness:
  "fst (CreateSession (sessionManager service_refused) ''user123'' ''test@example.com''
          (24 * Hour) ''sid2'' (at_created draws0) (at_expires draws0) (at_set draws0) store0) =
     Inl (Error ''failed to create session: connection refused'') \<and>
   (\<exists>accessToken refreshToken.
      GenerateToken (jwtManager service_refused) (claims_of user0) (at_access draws0) =
        Inr accessToken \<and>
      GenerateRefreshToken (jwtManager service_refused) (User.ID user0) (at_refresh draws0) =
        Inr refreshToken \<and>
      fst (generateAuthResponse service_refused user0 draws0 store0) =
        Inr (response_of service_refused user0 accessToken refreshToken) \<and>
      fst (SignIn service_refused bcrypt0
             \<lparr>SignInRequest.Email = ''test@example.com'', SignInRequest.Password = ''pw123456''\<rparr>
             draws0 users0 store0) =
        Inr (response_of service_refused user0 accessToken refreshToken) \<and>
      fst (RefreshToken' service_refused (projr (GenerateRefreshToken jwt0 ''user123'' t0))
             (t0 + Hour) draws0 users0 store0) =
        Inr (response_of service_refused user0 accessToken refreshToken)) \<and>
   (\<exists>accessToken refreshToken.
      fst (SignUp service_refused bcrypt0
             \<lparr>SignUpRequest.Email = ''new@example.com'', SignUpRequest.Password = ''pw123456'',
              SignUpRequest.Name = ''New''\<rparr>
             ''abcdefghijklmnop'' (t0 + Second) (t0 + Second + 100) draws0 users0 store0) =
        Inr (response_of service_refused
               \<lparr>User.ID = ''abcdefghijklmnop'', User.Email = ''new@example.com'',
                User.Name = ''New'', User.AvatarURL = [], User.Provider = ''local'',
                User.CreatedAt = t0 + Second, User.UpdatedAt = t0 + Second + 100\<rparr>
               accessToken refreshToken)) \<and>
   (\<exists>accessToken refreshToken.
      fst (OAuthSignIn service_refused callbacks_ok ProviderGitHub ''good'' ''c1''
             (t0 + Minute) (t0 + Minute) (t0 + Minute + 100) (t0 + Minute + 200)
             draws0 users0 store0) =
        Inr (response_of service_refused (user0\<lparr>User.UpdatedAt := t0 + Minute + 200\<rparr>)
               accessToken refreshToken)) \<and>
   (\<exists>accessToken refreshToken.
      fst (OAuthSignIn service_refused callbacks_ok ProviderGitHub ''good'' ''c1''
             (t0 + Minute) (t0 + Minute) (t0 + Minute + 100) (t0 + Minute + 200)
             draws0 [] store0) =
        Inr (response_of service_refused
               \<lparr>User.ID = ''github_42'', User.Email = ''test@example.com'',
                User.Name = ''Test'', User.AvatarURL = [], User.Provider = ''github'',
                User.CreatedAt = t0 + Minute + 100, User.UpdatedAt = t0 + Minute + 200\<rparr>
               accessToken refreshToken))"
proof -
  define accessToken where
    "accessToken = projr (GenerateToken (jwtManager service_refused) (claims_of user0) (at_access draws0))"
  define refreshToken where
    "refreshToken = projr (GenerateRefreshToken (jwtManager service_refused) (User.ID user0) (at_refresh draws0))"
  have at: "GenerateToken (jwtManager service_refused) (claims_of user0) (at_access draws0) =
      Inr accessToken"
    unfolding accessToken_def by (rule GenerateToken_returns)
  have rt: "GenerateRefreshToken (jwtManager service_refused) (User.ID user0) (at_refresh draws0) =
      Inr refreshToken"
    unfolding refreshToken_def by (rule GenerateRefreshToken_returns)
  have refused: "fst (CreateSession (sessionManager service_refused) ''user123'' ''test@example.com''
          (24 * Hour) ''sid2'' (at_created draws0) (at_expires draws0) (at_set draws0) store0) =
     Inl (Error ''failed to create session: connection refused'')"
    by (simp add: CreateSession_def auth_eval)
  have lookup: "GetUserByEmail (userStore service_refused)
        (SignInRequest.Email \<lparr>SignInRequest.Email = ''test@example.com'',
           SignInRequest.Password = ''pw123456''\<rparr>) users0 =
      (Inr (user0, ''hashed:pw123456''), users0)"
    by (simp add: auth_eval user0_def)
  have password: "CompareHashAndPassword bcrypt0 ''hashed:pw123456''
        (SignInRequest.Password \<lparr>SignInRequest.Email = ''test@example.com'',
           SignInRequest.Password = ''pw123456''\<rparr>) = None"
    by (simp add: bcrypt0_def)
  have refresh: "ValidateRefreshToken (jwtManager service_refused)
        (projr (GenerateRefreshToken jwt0 ''user123'' t0)) (t0 + Hour) = Inr ''user123''"
    by (simp add: auth_eval jwt0_def config0_def GenerateRefreshToken_def SignedString_def
        ValidateRefreshToken_def validate_defs claim_string_def t0_def time_defs string_eval)
  have by_id: "GetUserByID (userStore service_refused) ''user123'' users0 = (Inr user0, users0)"
    by (simp add: auth_eval user0_def)
  note w = session_failure_is_not_fatal [OF at rt, where s = store0 and u = users0
      and ?u1.0 = users0 and signIn = "\<lparr>SignInRequest.Email = ''test@example.com'',
           SignInRequest.Password = ''pw123456''\<rparr>" and bc = bcrypt0
      and hashedPassword = "''hashed:pw123456''"
      and token = "projr (GenerateRefreshToken jwt0 ''user123'' t0)" and now = "t0 + Hour"
      and userID = "''user123''"]
  from w have 1: "fst (generateAuthResponse service_refused user0 draws0 store0) =
        Inr (response_of service_refused user0 accessToken refreshToken)"
    by simp
  from w lookup password have 2: "fst (SignIn service_refused bcrypt0
             \<lparr>SignInRequest.Email = ''test@example.com'', SignInRequest.Password = ''pw123456''\<rparr>
             draws0 users0 store0) =
        Inr (response_of service_refused user0 accessToken refreshToken)"
    by blast
  from w refresh by_id have 3: "fst (RefreshToken' service_refused
             (projr (GenerateRefreshToken jwt0 ''user123'' t0)) (t0 + Hour) draws0 users0 store0) =
        Inr (response_of service_refused user0 accessToken refreshToken)"
    by blast
  from at rt 1 2 3 have first: "\<exists>accessToken refreshToken.
      GenerateToken (jwtManager service_refused) (claims_of user0) (at_access draws0) =
        Inr accessToken \<and>
      GenerateRefreshToken (jwtManager service_refused) (User.ID user0) (at_refresh draws0) =
        Inr refreshToken \<and>
      fst (generateAuthResponse service_refused user0 draws0 store0) =
        Inr (response_of service_refused user0 accessToken refreshToken) \<and>
      fst (SignIn service_refused bcrypt0
             \<lparr>SignInRequest.Email = ''test@example.com'', SignInRequest.Password = ''pw123456''\<rparr>
             draws0 users0 store0) =
        Inr (response_of service_refused user0 accessToken refreshToken) \<and>
      fst (RefreshToken' service_refused (projr (GenerateRefreshToken jwt0 ''user123'' t0))
             (t0 + Hour) draws0 users0 store0) =
        Inr (response_of service_refused user0 accessToken refreshToken)"
    by blast
  define newUser where "newUser =
      \<lparr>User.ID = ''abcdefghijklmnop'', User.Email = ''new@example.com'',
       User.Name = ''New'', User.AvatarURL = [], User.Provider = ''local'',
       User.CreatedAt = t0 + Second, User.UpdatedAt = t0 + Second + 100\<rparr>"
  define signUp where "signUp =
      \<lparr>SignUpRequest.Email = ''new@example.com'', SignUpRequest.Password = ''pw123456'',
       SignUpRequest.Name = ''New''\<rparr>"
  have signup_hyps: "AllowSignup (AuthService.config service_refused) \<and>
      UserExists (userStore service_refused) (SignUpRequest.Email signUp) users0 =
        (Inr False, users0) \<and>
      GenerateFromPassword bcrypt0 (SignUpRequest.Password signUp)
        (BCryptCost (AuthService.config service_refused)) = Inr ''hashed:pw123456'' \<and>
      newUser = \<lparr>User.ID = ''abcdefghijklmnop'', User.Email = SignUpRequest.Email signUp,
                  User.Name = SignUpRequest.Name signUp, User.AvatarURL = [],
                  User.Provider = ProviderLocal, User.CreatedAt = t0 + Second,
                  User.UpdatedAt = t0 + Second + 100\<rparr> \<and>
      CreateUser (userStore service_refused) newUser ''hashed:pw123456'' users0 =
        (None, users0 @ [(newUser, ''hashed:pw123456'')])"
    by (simp add: auth_eval user0_def config0_def newUser_def signUp_def ProviderLocal_def)
  note w2 = session_failure_is_not_fatal [OF GenerateToken_returns GenerateRefreshToken_returns,
      where a = service_refused and user = newUser and d = draws0 and s = store0 and u = users0
      and ?u1.0 = users0 and signUp = signUp and bc = bcrypt0
      and hashedPassword = "''hashed:pw123456''" and newID = "''abcdefghijklmnop''"
      and now_c = "t0 + Second" and now_u = "t0 + Second + 100"
      and ?u2.0 = "users0 @ [(newUser, ''hashed:pw123456'')]"]
  from w2 signup_hyps have second: "\<exists>accessToken refreshToken.
      fst (SignUp service_refused bcrypt0 signUp ''abcdefghijklmnop'' (t0 + Second)
             (t0 + Second + 100) draws0 users0 store0) =
        Inr (response_of service_refused newUser accessToken refreshToken)"
    by blast
  define consumed where "consumed = store0(''oauth:state:good'' := None)"
  have callback: "ValidateCallback (oauthManager service_refused) callbacks_ok ProviderGitHub
        ''good'' ''c1'' (t0 + Minute) (t0 + Minute) store0 =
      ((Some info0, ''http://localhost:3000/done'', None), consumed)"
    by (simp add: consumed_def auth_eval ValidateCallback_def validateState_def
        MemorySessionStore_Get_def After_def Let_def ProviderGoogle_def ProviderGitHub_def
        store0_def state0_def t0_def time_defs callbacks_ok_def string_eval)
  have email: "OAuthUserInfo.Email info0 \<noteq> []"
    by (simp add: info0_def)
  define known where "known = user0\<lparr>User.UpdatedAt := t0 + Minute + 200\<rparr>"
  have known_hyps: "GetUserByEmail (userStore service_refused) (OAuthUserInfo.Email info0) users0 =
        (Inr (user0, ''hashed:pw123456''), users0) \<and>
      known = user0\<lparr>User.Name := OAuthUserInfo.Name info0,
                     User.AvatarURL := OAuthUserInfo.AvatarURL info0,
                     User.UpdatedAt := t0 + Minute + 200\<rparr>"
    by (simp add: auth_eval user0_def info0_def known_def)
  note w3 = session_failure_is_not_fatal [OF GenerateToken_returns GenerateRefreshToken_returns,
      where a = service_refused and user = known and d = draws0 and s = consumed and u = users0
      and ?u1.0 = users0 and cb = callbacks_ok and provider = ProviderGitHub
      and state = "''good''" and code = "''c1''" and now_get = "t0 + Minute"
      and now_check = "t0 + Minute" and ?s0.0 = store0 and oauthUser = info0
      and redirectURI = "''http://localhost:3000/done''" and found = user0
      and hashedPassword = "''hashed:pw123456''" and now_c = "t0 + Minute + 100"
      and now_u = "t0 + Minute + 200"]
  from w3 callback email known_hyps have third: "\<exists>accessToken refreshToken.
      fst (OAuthSignIn service_refused callbacks_ok ProviderGitHub ''good'' ''c1''
             (t0 + Minute) (t0 + Minute) (t0 + Minute + 100) (t0 + Minute + 200)
             draws0 users0 store0) =
        Inr (response_of service_refused known accessToken refreshToken)"
    by blast
  define fresh where "fresh =
      \<lparr>User.ID = ''github_42'', User.Email = ''test@example.com'',
       User.Name = ''Test'', User.AvatarURL = [], User.Provider = ''github'',
       User.CreatedAt = t0 + Minute + 100, User.UpdatedAt = t0 + Minute + 200\<rparr>"
  have fresh_hyps: "GetUserByEmail (userStore service_refused) (OAuthUserInfo.Email info0) [] =
        (Inl (Error ''user not found''), []) \<and>
      fresh = \<lparr>User.ID = ProviderGitHub @ ''_'' @ OAuthUserInfo.ID info0,
                User.Email = OAuthUserInfo.Email info0,
                User.Name = OAuthUserInfo.Name info0,
                User.AvatarURL = OAuthUserInfo.AvatarURL info0,
                User.Provider = OAuthUserInfo.Provider info0,
                User.CreatedAt = t0 + Minute + 100, User.UpdatedAt = t0 + Minute + 200\<rparr> \<and>
      CreateUser (userStore service_refused) fresh [] [] = (None, [(fresh, [])])"
    by (simp add: auth_eval info0_def fresh_def ProviderGitHub_def)
  note w4 = session_failure_is_not_fatal [OF GenerateToken_returns GenerateRefreshToken_returns,
      where a = service_refused and user = fresh and d = draws0 and s = consumed and u = "[]"
      and ?u1.0 = "[]" and cb = callbacks_ok and provider = ProviderGitHub
      and state = "''good''" and code = "''c1''" and now_get = "t0 + Minute"
      and now_check = "t0 + Minute" and ?s0.0 = store0 and oauthUser = info0
      and redirectURI = "''http://localhost:3000/done''" and err = "Error ''user not found''"
      and now_c = "t0 + Minute + 100" and now_u = "t0 + Minute + 200"
      and ?u2.0 = "[(fresh, [])]"]
  from w4 callback email fresh_hyps have fourth: "\<exists>accessToken refreshToken.
      fst (OAuthSignIn service_refused callbacks_ok ProviderGitHub ''good'' ''c1''
             (t0 + Minute) (t0 + Minute) (t0 + Minute + 100) (t0 + Minute + 200)
             draws0 [] store0) =
        Inr (response_of service_refused fresh accessToken refreshToken)"
    by blast
  from refused first second third fourth show ?thesis
    unfolding newUser_def signUp_def known_def fresh_def by blast
qed

end
